theory Spec2Isabelle
  imports Main "HOL-Library.Mapping" "HOL-Library.AList_Mapping"
begin

section \<open>Values of the Go program\<close>

text \<open>
  \<^verbatim>\<open>slog.Level\<close> is declared as \<^verbatim>\<open>type Level int\<close>. The handler only
  compares levels and copies them, so a level is an integer with the usual order; the
  zero value of the type is \<open>0\<close>. The four named levels have the values the standard
  library gives them.
\<close>

type_synonym Level = int

definition LevelDebug :: Level where "LevelDebug = - 4"
definition LevelInfo :: Level where "LevelInfo = 0"
definition LevelWarn :: Level where "LevelWarn = 4"
definition LevelError :: Level where "LevelError = 8"

text \<open>A Go \<^verbatim>\<open>error\<close> value is represented by its message; \<open>None\<close> is \<^verbatim>\<open>nil\<close>.\<close>

type_synonym error = string

text \<open>The run-time panics the code of \<^verbatim>\<open>handler.go\<close> could raise.\<close>

datatype panic = NilPointerDereference | IndexOutOfRange | NilMapAssignment

text \<open>
  \<^verbatim>\<open>slog.Record\<close>: the fields the handler reads are \<^verbatim>\<open>Level\<close> and \<^verbatim>\<open>PC\<close>;
  the others travel with the record.
\<close>

record Record =
  Time :: nat
  Message :: string
  Level :: Level
  PC :: nat

subsection \<open>config and the options\<close>

record config =
  defaultLevel :: Level
  envVarName :: string
  defaultFilter :: string

text \<open>
  \<^verbatim>\<open>type Opt func(*config)\<close>: an option updates the configuration it is given. The
  three constructors below are the only ones the package exports.
\<close>

type_synonym Opt = "config \<Rightarrow> config"

definition WithDefaultLevel :: "Level \<Rightarrow> Opt" where
  "WithDefaultLevel level = (\<lambda>cfg. cfg\<lparr>config.defaultLevel := level\<rparr>)"

definition WithEnvVarName :: "string \<Rightarrow> Opt" where
  "WithEnvVarName name = (\<lambda>cfg. cfg\<lparr>envVarName := name\<rparr>)"

definition WithDefaultFilter :: "string \<Rightarrow> Opt" where
  "WithDefaultFilter filter' = (\<lambda>cfg. cfg\<lparr>defaultFilter := filter'\<rparr>)"

subsection \<open>Handler objects, maps and the store\<close>

text \<open>
  A Go map value is a reference to a map object, and \<^verbatim>\<open>*Handler\<close> is a pointer to a
  struct. Both kinds of object live in a store; a reference is the index of its cell.
  The field \<open>perPackageLevel\<close> of a handler holds the reference of its map, so two
  handlers share a map exactly when the fields are equal.
\<close>

record 'h Handler =
  inner :: 'h
  defaultLevel :: Level
  perPackageLevel :: nat

record 'h store =
  handlers :: "'h Handler list"
  levelMaps :: "(string, Level) mapping list"

text \<open>Reading a field through a pointer that refers to no handler panics.\<close>

definition deref :: "'h store \<Rightarrow> nat \<Rightarrow> panic + 'h Handler" where
  "deref st p =
     (if p < length (handlers st) then Inr (handlers st ! p) else Inl NilPointerDereference)"

text \<open>\<^verbatim>\<open>&Handler{...}\<close> allocates a new cell and yields its pointer.\<close>

definition newHandler :: "'h store \<Rightarrow> 'h Handler \<Rightarrow> nat \<times> 'h store" where
  "newHandler st h = (length (handlers st), st\<lparr>handlers := handlers st @ [h]\<rparr>)"

text \<open>\<^verbatim>\<open>make(map[string]slog.Level)\<close> allocates a new, empty map.\<close>

definition makeMap :: "'h store \<Rightarrow> nat \<times> 'h store" where
  "makeMap st = (length (levelMaps st), st\<lparr>levelMaps := levelMaps st @ [Mapping.empty]\<rparr>)"

text \<open>
  Reads of a map: a reference that refers to no map object behaves as Go's nil map, which
  has no entries.
\<close>

definition mapAt :: "'h store \<Rightarrow> nat \<Rightarrow> (string, Level) mapping" where
  "mapAt st m = (if m < length (levelMaps st) then levelMaps st ! m else Mapping.empty)"

text \<open>\<^verbatim>\<open>v, ok := m[k]\<close>\<close>

definition mapLookup :: "'h store \<Rightarrow> nat \<Rightarrow> string \<Rightarrow> Level \<times> bool" where
  "mapLookup st m k =
     (case Mapping.lookup (mapAt st m) k of None \<Rightarrow> (0, False) | Some v \<Rightarrow> (v, True))"

text \<open>\<^verbatim>\<open>m[k] = v\<close>: updates the map object in place; assignment to a nil map panics.\<close>

definition mapAssign :: "'h store \<Rightarrow> nat \<Rightarrow> string \<Rightarrow> Level \<Rightarrow> panic + 'h store" where
  "mapAssign st m k v =
     (if m < length (levelMaps st)
      then Inr (st\<lparr>levelMaps := (levelMaps st)[m := Mapping.update k v (levelMaps st ! m)]\<rparr>)
      else Inl NilMapAssignment)"

subsection \<open>The collaborators\<close>

text \<open>
  The wrapped \<^verbatim>\<open>slog.Handler\<close> is an interface value of some type \<open>'h\<close>. Its methods
  may have effects (the handler of the tests appends to a slice), so each takes and
  returns the state \<open>'w\<close> they act on. \<open>'c\<close> is \<^verbatim>\<open>context.Context\<close> and \<open>'a\<close> is
  \<^verbatim>\<open>slog.Attr\<close>; the code only passes them on.
\<close>

record ('h, 'c, 'a, 'w) sink =
  inner_Handle :: "'h \<Rightarrow> 'c \<Rightarrow> Record \<Rightarrow> 'w \<Rightarrow> error option \<times> 'w"
  inner_WithAttrs :: "'h \<Rightarrow> 'a list \<Rightarrow> 'w \<Rightarrow> 'h \<times> 'w"
  inner_WithGroup :: "'h \<Rightarrow> string \<Rightarrow> 'w \<Rightarrow> 'h \<times> 'w"

text \<open>
  \<^verbatim>\<open>os.Getenv\<close>: the value of the variable, and the empty string when it is not set.
  The environment maps the names that are set to their values.
\<close>

definition Getenv :: "(string \<Rightarrow> string option) \<Rightarrow> string \<Rightarrow> string" where
  "Getenv env key = (case env key of None \<Rightarrow> [] | Some v \<Rightarrow> v)"

text \<open>
  \<^verbatim>\<open>os.Setenv\<close> and \<^verbatim>\<open>os.Unsetenv\<close>, with which the tests prepare the environment, and
  the environment in which no variable is set.
\<close>

definition Setenv :: "string \<Rightarrow> string \<Rightarrow> (string \<Rightarrow> string option) \<Rightarrow> (string \<Rightarrow> string option)" where
  "Setenv key v env = env(key \<mapsto> v)"

definition Unsetenv :: "string \<Rightarrow> (string \<Rightarrow> string option) \<Rightarrow> (string \<Rightarrow> string option)" where
  "Unsetenv key env = env(key := None)"

definition emptyEnv :: "string \<Rightarrow> string option" where
  "emptyEnv = Map.empty"

text \<open>
  \<^verbatim>\<open>(*slog.Level).UnmarshalText\<close> of the standard library assigns to its receiver only
  after the text has been decoded, and returns the decoding error otherwise. The decoding
  itself is the parameter \<open>dec\<close>. The result is the receiver's new value and the error.
\<close>

definition UnmarshalText :: "(string \<Rightarrow> error + Level) \<Rightarrow> Level \<Rightarrow> string \<Rightarrow> Level \<times> error option" where
  "UnmarshalText dec l data = (case dec data of Inl e \<Rightarrow> (l, Some e) | Inr v \<Rightarrow> (v, None))"

section \<open>strings.Index, strings.Cut and strings.Split\<close>

text \<open>
  Go strings are byte sequences. The code calls the three functions with separators of
  one byte (\<^verbatim>\<open>"/"\<close>, \<^verbatim>\<open>"."\<close>, \<^verbatim>\<open>"="\<close>, \<^verbatim>\<open>","\<close>), so the separator is a
  \<open>char\<close> here. \<^verbatim>\<open>Index\<close> returns \<open>-1\<close> when the separator does not occur: \<open>None\<close>.
\<close>

fun Index :: "string \<Rightarrow> char \<Rightarrow> nat option" where
  "Index [] sep = None"
| "Index (c # cs) sep = (if c = sep then Some 0 else map_option Suc (Index cs sep))"

definition Cut :: "string \<Rightarrow> char \<Rightarrow> string \<times> string \<times> bool" where
  "Cut s sep = (case Index s sep of Some i \<Rightarrow> (take i s, drop (i + 1) s, True) | None \<Rightarrow> (s, [], False))"

lemma Index_less: "Index s sep = Some i \<Longrightarrow> i < length s"
  by (induction s arbitrary: i) (auto split: if_splits)

function Split :: "string \<Rightarrow> char \<Rightarrow> string list" where
  "Split s sep = (case Index s sep of None \<Rightarrow> [s] | Some m \<Rightarrow> take m s # Split (drop (m + 1) s) sep)"
  by pat_completeness auto
termination
  by (relation "measure (\<lambda>(s, sep). length s)") (auto dest: Index_less)

declare Split.simps [simp del]

text \<open>
  What the three functions compute, in terms of the list functions of the library:
  \<open>Cut\<close> splits at the first separator, \<open>Split\<close> never returns the empty list,
  and its last element is the text after the last separator.
\<close>

lemma Index_None_iff: "Index s sep = None \<longleftrightarrow> sep \<notin> set s"
  by (induction s) auto

lemma Index_Some_take: "Index s sep = Some i \<Longrightarrow> take i s = takeWhile (\<lambda>c. c \<noteq> sep) s"
  by (induction s arbitrary: i) (auto split: if_splits)

lemma Index_Some_drop: "Index s sep = Some i \<Longrightarrow> drop (i + 1) s = tl (dropWhile (\<lambda>c. c \<noteq> sep) s)"
  by (induction s arbitrary: i) (auto split: if_splits)

lemma Cut_conv:
  "Cut s sep =
     (if sep \<in> set s
      then (takeWhile (\<lambda>c. c \<noteq> sep) s, tl (dropWhile (\<lambda>c. c \<noteq> sep) s), True)
      else (s, [], False))"
proof (cases "Index s sep")
  case None
  moreover from None have "sep \<notin> set s" by (simp add: Index_None_iff)
  ultimately show ?thesis by (simp add: Cut_def)
next
  case (Some i)
  then have "sep \<in> set s" using Index_None_iff [of s sep] by auto
  with Some show ?thesis
    by (simp add: Cut_def Index_Some_take Index_Some_drop del: One_nat_def)
qed

lemma Split_not_Nil: "Split s sep \<noteq> []"
  by (subst Split.simps) (simp split: option.split)

lemma Split_no_sep: "sep \<notin> set s \<Longrightarrow> Split s sep = [s]"
  by (subst Split.simps) (simp add: Index_None_iff [symmetric])

lemma Split_sep:
  "sep \<in> set s \<Longrightarrow>
   Split s sep = takeWhile (\<lambda>c. c \<noteq> sep) s # Split (tl (dropWhile (\<lambda>c. c \<noteq> sep) s)) sep"
proof -
  assume a: "sep \<in> set s"
  then obtain i where i: "Index s sep = Some i"
    using Index_None_iff [of s sep] by (cases "Index s sep") auto
  show ?thesis
    by (subst Split.simps) (simp add: i Index_Some_take [OF i] Index_Some_drop [OF i] del: One_nat_def)
qed

lemma Split_Nil: "Split [] sep = [[]]"
  by (simp add: Split_no_sep)

lemma Split_Cons:
  "Split (c # cs) sep =
     (if c = sep then [] # Split cs sep
      else (case Split cs sep of [] \<Rightarrow> [[c]] | p # ps \<Rightarrow> (c # p) # ps))"
proof (cases "c = sep")
  case True
  then show ?thesis by (simp add: Split_sep)
next
  case False
  show ?thesis
  proof (cases "sep \<in> set cs")
    case True
    with False show ?thesis by (simp add: Split_sep)
  next
    case no: False
    with False show ?thesis by (simp add: Split_no_sep)
  qed
qed

lemma last_Split: "last (Split s sep) = rev (takeWhile (\<lambda>c. c \<noteq> sep) (rev s))"
proof (induction s)
  case Nil
  then show ?case by (simp add: Split_Nil)
next
  case (Cons c cs)
  show ?case
  proof (cases "sep \<in> set cs")
    case True
    then have t: "takeWhile (\<lambda>c. c \<noteq> sep) (rev cs @ [c]) = takeWhile (\<lambda>c. c \<noteq> sep) (rev cs)"
      by simp
    obtain p ps where sp: "Split cs sep = p # ps" "ps \<noteq> []"
      using True by (auto simp add: Split_sep [of sep cs] Split_not_Nil)
    then show ?thesis using Cons t
      by (simp add: Split_Cons)
  next
    case False
    then have t: "takeWhile (\<lambda>c. c \<noteq> sep) (rev cs @ [c]) = rev cs @ takeWhile (\<lambda>c. c \<noteq> sep) [c]"
      by (intro takeWhile_append2) auto
    show ?thesis using False t by (simp add: Split_Cons Split_no_sep)
  qed
qed

section \<open>handler.go\<close>

subsection \<open>parsePackage\<close>

text \<open>
  \<^verbatim>\<open>parts[len(parts)-1]\<close> panics when \<open>parts\<close> is empty; the branch is part of the
  model, and \<open>parsePackage_total\<close> below shows that it is never taken.
\<close>

definition parsePackage :: "string \<Rightarrow> panic + (string \<times> bool)" where
  "parsePackage function' =
     (let parts = Split function' CHR ''/'' in
      if length parts = 0 then Inl IndexOutOfRange
      else (case Cut (parts ! (length parts - 1)) CHR ''.'' of (pkg, _, ok) \<Rightarrow> Inr (pkg, ok)))"

subsection \<open>getLevelForRecord\<close>

text \<open>
  \<open>frames\<close> stands for the run-time system: \<open>frames pc\<close> is the field \<^verbatim>\<open>Function\<close> of
  the first frame of \<^verbatim>\<open>runtime.CallersFrames([]uintptr{pc})\<close>, the empty string when the
  function is not known.
\<close>

definition getLevelForRecord :: "(nat \<Rightarrow> string) \<Rightarrow> 'h store \<Rightarrow> nat \<Rightarrow> Record \<Rightarrow> panic + Level" where
  "getLevelForRecord frames st h record =
     (case deref st h of
        Inl p \<Rightarrow> Inl p
      | Inr hv \<Rightarrow>
          if Mapping.is_empty (mapAt st (perPackageLevel hv)) then Inr (defaultLevel hv)
          else (case parsePackage (frames (PC record)) of
                  Inl p \<Rightarrow> Inl p
                | Inr (pkg, ok) \<Rightarrow>
                    if \<not> ok then Inr (defaultLevel hv)
                    else (case mapLookup st (perPackageLevel hv) pkg of
                            (level, ok') \<Rightarrow>
                              if \<not> ok' then Inr (defaultLevel hv) else Inr level)))"

subsection \<open>Enabled and Handle\<close>

definition Enabled :: "'h store \<Rightarrow> nat \<Rightarrow> 'c \<Rightarrow> Level \<Rightarrow> panic + bool" where
  "Enabled st h ctx level =
     (case deref st h of
        Inl p \<Rightarrow> Inl p
      | Inr hv \<Rightarrow>
          if Mapping.is_empty (mapAt st (perPackageLevel hv)) then Inr (level \<ge> defaultLevel hv)
          else Inr True)"

text \<open>
  The result of \<open>Handle\<close> is the returned error and the state of the wrapped handler
  after the call.
\<close>

definition Handle ::
  "('h, 'c, 'a, 'w) sink \<Rightarrow> (nat \<Rightarrow> string) \<Rightarrow> 'h store \<Rightarrow> nat \<Rightarrow> 'c \<Rightarrow> Record \<Rightarrow> 'w
     \<Rightarrow> panic + (error option \<times> 'w)" where
  "Handle ops frames st h ctx record w =
     (case getLevelForRecord frames st h record of
        Inl p \<Rightarrow> Inl p
      | Inr level \<Rightarrow>
          if Level record < level then Inr (None, w)
          else (case deref st h of
                  Inl p \<Rightarrow> Inl p
                | Inr hv \<Rightarrow> Inr (inner_Handle ops (inner hv) ctx record w)))"

subsection \<open>WithAttrs and WithGroup\<close>

text \<open>The result is the pointer to the new handler, the store and the wrapped handler's state.\<close>

definition WithAttrs ::
  "('h, 'c, 'a, 'w) sink \<Rightarrow> 'h store \<Rightarrow> nat \<Rightarrow> 'a list \<Rightarrow> 'w \<Rightarrow> panic + (nat \<times> 'h store \<times> 'w)" where
  "WithAttrs ops st h attrs w =
     (case deref st h of
        Inl p \<Rightarrow> Inl p
      | Inr hv \<Rightarrow>
          (case inner_WithAttrs ops (inner hv) attrs w of
             (inner', w') \<Rightarrow>
               (case newHandler st
                       \<lparr>inner = inner', defaultLevel = defaultLevel hv,
                        perPackageLevel = perPackageLevel hv\<rparr> of
                  (h', st') \<Rightarrow> Inr (h', st', w'))))"

definition WithGroup ::
  "('h, 'c, 'a, 'w) sink \<Rightarrow> 'h store \<Rightarrow> nat \<Rightarrow> string \<Rightarrow> 'w \<Rightarrow> panic + (nat \<times> 'h store \<times> 'w)" where
  "WithGroup ops st h name w =
     (case deref st h of
        Inl p \<Rightarrow> Inl p
      | Inr hv \<Rightarrow>
          (case inner_WithGroup ops (inner hv) name w of
             (inner', w') \<Rightarrow>
               (case newHandler st
                       \<lparr>inner = inner', defaultLevel = defaultLevel hv,
                        perPackageLevel = perPackageLevel hv\<rparr> of
                  (h', st') \<Rightarrow> Inr (h', st', w'))))"

subsection \<open>parseFilter\<close>

text \<open>
  The body of the \<^verbatim>\<open>for\<close> loop over \<open>filters\<close>, with the loop's variables
  \<open>defaultLevel\<close> and the store that holds the map \<open>perPackageLevel\<close>. Both calls of
  \<^verbatim>\<open>UnmarshalText\<close> drop the returned error.
\<close>

fun parseFilterLoop ::
  "(string \<Rightarrow> error + Level) \<Rightarrow> nat \<Rightarrow> string list \<Rightarrow> Level \<Rightarrow> 'h store \<Rightarrow> panic + (Level \<times> 'h store)" where
  "parseFilterLoop dec perPackageLevel' [] defaultLevel' st = Inr (defaultLevel', st)"
| "parseFilterLoop dec perPackageLevel' (filter' # filters) defaultLevel' st =
     (case Cut filter' CHR ''='' of
        (first, second, ok) \<Rightarrow>
          if \<not> ok
          then parseFilterLoop dec perPackageLevel' filters
                 (fst (UnmarshalText dec defaultLevel' first)) st
          else (let packageLevel = fst (mapLookup st perPackageLevel' first);
                    packageLevel = fst (UnmarshalText dec packageLevel second)
                in case mapAssign st perPackageLevel' first packageLevel of
                     Inl p \<Rightarrow> Inl p
                   | Inr st' \<Rightarrow> parseFilterLoop dec perPackageLevel' filters defaultLevel' st'))"

definition parseFilter ::
  "(string \<Rightarrow> error + Level) \<Rightarrow> 'h store \<Rightarrow> Level \<Rightarrow> string \<Rightarrow> panic + (Level \<times> nat \<times> 'h store)" where
  "parseFilter dec st defaultLevel' filter' =
     (case makeMap st of
        (perPackageLevel', st1) \<Rightarrow>
          (case parseFilterLoop dec perPackageLevel' (Split filter' CHR '','') defaultLevel' st1 of
             Inl p \<Rightarrow> Inl p
           | Inr (defaultLevel'', st2) \<Rightarrow> Inr (defaultLevel'', perPackageLevel', st2)))"

subsection \<open>NewHandler\<close>

text \<open>
  \<open>env\<close> is the process environment read by \<^verbatim>\<open>os.Getenv\<close>. \<open>chooseFilter\<close> is the
  value of the variable \<open>filter\<close> of \<open>NewHandler\<close> when \<open>parseFilter\<close> is called.
\<close>

definition applyOpts :: "Opt list \<Rightarrow> config" where
  "applyOpts opts =
     foldl (\<lambda>cfg opt. opt cfg)
       \<lparr>config.defaultLevel = LevelInfo, envVarName = ''GO_LOG'', defaultFilter = []\<rparr> opts"

definition chooseFilter :: "(string \<Rightarrow> string option) \<Rightarrow> config \<Rightarrow> string" where
  "chooseFilter env cfg =
     (let filter' = defaultFilter cfg;
          envFilter = Getenv env (envVarName cfg)
      in if envFilter \<noteq> [] then envFilter else filter')"

definition NewHandler ::
  "(string \<Rightarrow> error + Level) \<Rightarrow> (string \<Rightarrow> string option) \<Rightarrow> 'h store \<Rightarrow> 'h \<Rightarrow> Opt list
     \<Rightarrow> panic + (nat \<times> 'h store)" where
  "NewHandler dec env st inner' opts =
     (let cfg = applyOpts opts;
          filter' = chooseFilter env cfg
      in case parseFilter dec st (config.defaultLevel cfg) filter' of
           Inl p \<Rightarrow> Inl p
         | Inr (defaultLevel', perPackageLevel', st') \<Rightarrow>
             Inr (newHandler st'
                    \<lparr>inner = inner', defaultLevel = defaultLevel',
                     perPackageLevel = perPackageLevel'\<rparr>))"

section \<open>Concrete collaborators\<close>

text \<open>
  The theorems below hold for every wrapped handler, every run-time symbol table and
  every level decoder. The concrete ones of this section are the inputs of the evaluated
  examples.
\<close>

subsection \<open>The handler and the callers of the tests\<close>

text \<open>
  \<^verbatim>\<open>testHandler\<close> of the test file: \<^verbatim>\<open>Handle\<close> appends the message of the record to
  \<^verbatim>\<open>h.messages\<close> and returns \<^verbatim>\<open>nil\<close>; \<^verbatim>\<open>WithAttrs\<close> and \<^verbatim>\<open>WithGroup\<close> return the
  handler itself. Its state is the slice of messages.
\<close>

definition testHandler :: "(unit, unit, unit, string list) sink" where
  "testHandler =
     \<lparr>inner_Handle = (\<lambda>h ctx record messages. (None, messages @ [Message record])),
      inner_WithAttrs = (\<lambda>h attrs messages. (h, messages)),
      inner_WithGroup = (\<lambda>h name messages. (h, messages))\<rparr>"

text \<open>
  A symbol table with the two call sites of \<^verbatim>\<open>TestPackageFilter\<close>: program counter 1 lies
  in the closure of the test, program counter 2 in \<^verbatim>\<open>testpackage.LogSomething\<close>; no other
  program counter has a known function.
\<close>

definition testFrames :: "nat \<Rightarrow> string" where
  "testFrames pc =
     (if pc = 1 then ''github.com/cbrewster/slog-env_test.TestPackageFilter.func1''
      else if pc = 2 then ''github.com/cbrewster/slog-env/internal/testpackage.LogSomething''
      else [])"

subsection \<open>The level decoder of log/slog\<close>

text \<open>
  \<^verbatim>\<open>func (l *Level) parse(s string) error\<close> of the standard library, as a decoder: the
  name before the first \<^verbatim>\<open>+\<close> or \<^verbatim>\<open>-\<close>, upper-cased, must be one of the four level
  names; the rest, when there is one, is read by \<^verbatim>\<open>strconv.Atoi\<close> and added to the level
  in 64-bit arithmetic. \<open>ToUpper\<close> stands for \<^verbatim>\<open>strings.ToUpper\<close>, which works on the
  code points of the UTF-8 text: it upper-cases the ASCII letters, and it maps the bytes
  \<^verbatim>\<open>c4 b1\<close> (U+0131, the dotless i) to \<^verbatim>\<open>I\<close>, the one code point outside ASCII whose
  upper case is a letter of a level name. Every other byte is kept; the library may change
  such bytes, but never into a level name, so the comparison with the four names has the
  library's outcome. An error is represented by the text of its cause, without the prefix
  that names the function and the input.
\<close>

definition upperByte :: "char \<Rightarrow> char" where
  "upperByte c =
     (case map_of (zip ''abcdefghijklmnopqrstuvwxyz'' ''ABCDEFGHIJKLMNOPQRSTUVWXYZ'') c of
        None \<Rightarrow> c | Some u \<Rightarrow> u)"

fun ToUpper :: "string \<Rightarrow> string" where
  "ToUpper [] = []"
| "ToUpper [c] = [upperByte c]"
| "ToUpper (c # d # cs) =
     (if c = CHR 0xC4 \<and> d = CHR 0xB1 then CHR ''I'' # ToUpper cs
      else upperByte c # ToUpper (d # cs))"

fun decimal :: "string \<Rightarrow> int \<Rightarrow> int option" where
  "decimal [] n = Some n"
| "decimal (c # cs) n =
     (case map_of (zip ''0123456789'' [0, 1, 2, 3, 4, 5, 6, 7, 8, 9]) c of
        None \<Rightarrow> None
      | Some d \<Rightarrow> decimal cs (n * 10 + d))"

definition Atoi :: "string \<Rightarrow> error + int" where
  "Atoi s =
     (let neg = (s \<noteq> [] \<and> hd s = CHR ''-'');
          ds = (if s \<noteq> [] \<and> (hd s = CHR ''+'' \<or> hd s = CHR ''-'') then tl s else s)
      in if ds = [] then Inl ''invalid syntax''
         else (case decimal ds 0 of
                 None \<Rightarrow> Inl ''invalid syntax''
               | Some n \<Rightarrow>
                   (let v = (if neg then - n else n)
                    in if v < - (2 ^ 63) \<or> 2 ^ 63 - 1 < v then Inl ''value out of range''
                       else Inr v)))"

fun IndexAny :: "string \<Rightarrow> string \<Rightarrow> nat option" where
  "IndexAny [] chars = None"
| "IndexAny (c # cs) chars =
     (if c \<in> set chars then Some 0 else map_option Suc (IndexAny cs chars))"

definition Level_parse :: "string \<Rightarrow> error + Level" where
  "Level_parse s =
     (case (case IndexAny s ''+-'' of
              None \<Rightarrow> Inr (s, 0)
            | Some i \<Rightarrow> (case Atoi (drop i s) of
                           Inl e \<Rightarrow> Inl e
                         | Inr offset \<Rightarrow> Inr (take i s, offset))) of
        Inl e \<Rightarrow> Inl e
      | Inr (name, offset) \<Rightarrow>
          (let u = ToUpper name;
               wrap = (\<lambda>x :: int. (x + 2 ^ 63) mod 2 ^ 64 - 2 ^ 63)
           in if u = ''DEBUG'' then Inr (wrap (LevelDebug + offset))
              else if u = ''INFO'' then Inr (wrap (LevelInfo + offset))
              else if u = ''WARN'' then Inr (wrap (LevelWarn + offset))
              else if u = ''ERROR'' then Inr (wrap (LevelError + offset))
              else Inl ''unknown name''))"

lemma Level_parse_names:
  "Level_parse ''debug'' = Inr LevelDebug"
  "Level_parse ''info'' = Inr LevelInfo"
  "Level_parse ''warn'' = Inr LevelWarn"
  "Level_parse ''error'' = Inr LevelError"
  by (simp_all add: Level_parse_def upperByte_def LevelDebug_def LevelInfo_def LevelWarn_def
      LevelError_def)

lemma Level_parse_offset: "Level_parse ''Info+4'' = Inr LevelWarn"
  by (simp add: Level_parse_def upperByte_def LevelInfo_def LevelWarn_def Atoi_def)

lemma Level_parse_empty: "Level_parse [] = Inl ''unknown name''"
  by (simp add: Level_parse_def upperByte_def)

lemma Level_parse_unknown: "Level_parse ''verbose'' = Inl ''unknown name''"
  by (simp add: Level_parse_def upperByte_def)

text \<open>The bytes \<^verbatim>\<open>c4 b1\<close> followed by \<^verbatim>\<open>nfo\<close> decode as the level \<^verbatim>\<open>INFO\<close>.\<close>

lemma Level_parse_dotless_i:
  "Level_parse [CHR 0xC4, CHR 0xB1, CHR ''n'', CHR ''f'', CHR ''o''] = Inr LevelInfo"
  by (simp add: Level_parse_def upperByte_def LevelInfo_def)

section \<open>Evaluating the model\<close>

text \<open>The rules that compute the string functions on literals.\<close>

lemmas string_eval = Split_Cons Split_Nil Cut_def parsePackage_def

text \<open>The example of the comment of \<open>parsePackage\<close>.\<close>

lemma parsePackage_example:
  "parsePackage ''github.com/cbrewster/slog-env_test.TestFilterPackage''
     = Inr (''slog-env_test'', True)"
  by (simp add: string_eval)

text \<open>
  The handler of the last case of \<^verbatim>\<open>TestPackageFilter\<close>, built by \<open>NewHandler\<close> in the
  empty store with \<^verbatim>\<open>GO_LOG=error,testpackage=debug\<close>.
\<close>

definition emptyStore :: "unit store" where
  "emptyStore = \<lparr>handlers = [], levelMaps = []\<rparr>"

definition testStore :: "unit store" where
  "testStore =
     \<lparr>handlers = [\<lparr>inner = (), defaultLevel = LevelError, perPackageLevel = 0\<rparr>],
      levelMaps = [Mapping.update ''testpackage'' LevelDebug Mapping.empty]\<rparr>"

lemmas env_eval = Getenv_def Setenv_def Unsetenv_def emptyEnv_def

lemmas store_eval =
  makeMap_def mapLookup_def mapAt_def mapAssign_def newHandler_def deref_def UnmarshalText_def

lemma NewHandler_test:
  "NewHandler Level_parse (Setenv ''GO_LOG'' ''error,testpackage=debug'' emptyEnv) emptyStore () []
     = Inr (0, testStore)"
  by (simp add: NewHandler_def applyOpts_def chooseFilter_def env_eval parseFilter_def
      string_eval store_eval Level_parse_def upperByte_def emptyStore_def testStore_def
      LevelDebug_def LevelError_def LevelInfo_def)

section \<open>Level resolution\<close>

subsection \<open>The module of a caller, in the words of the specification\<close>

text \<open>
  The module name of a symbol: take the text after the last \<^verbatim>\<open>/\<close> (the last path
  segment), then the text before its first \<^verbatim>\<open>.\<close>; there is no module when the segment
  has no \<^verbatim>\<open>.\<close>. The effective level: the default when there are no overrides, when the
  symbol has no module, or when the module has no entry; the entry otherwise.
\<close>

definition callerModule :: "string \<Rightarrow> string option" where
  "callerModule symbol =
     (let segment = rev (takeWhile (\<lambda>c. c \<noteq> CHR ''/'') (rev symbol))
      in if CHR ''.'' \<in> set segment
         then Some (takeWhile (\<lambda>c. c \<noteq> CHR ''.'') segment)
         else None)"

definition effectiveLevel :: "Level \<Rightarrow> (string, Level) mapping \<Rightarrow> string \<Rightarrow> Level" where
  "effectiveLevel default' overrides symbol =
     (if Mapping.is_empty overrides then default'
      else (case callerModule symbol of
              None \<Rightarrow> default'
            | Some module \<Rightarrow>
                (case Mapping.lookup overrides module of
                   None \<Rightarrow> default'
                 | Some level \<Rightarrow> level)))"

subsection \<open>parsePackage computes the module and never panics\<close>

lemma parsePackage_conv:
  "parsePackage function' =
     Inr (let segment = rev (takeWhile (\<lambda>c. c \<noteq> CHR ''/'') (rev function'))
          in if CHR ''.'' \<in> set segment
             then (takeWhile (\<lambda>c. c \<noteq> CHR ''.'') segment, True)
             else (segment, False))"
proof -
  let ?parts = "Split function' CHR ''/''"
  have "?parts ! (length ?parts - 1) = last ?parts"
    by (simp add: last_conv_nth Split_not_Nil)
  then have "?parts ! (length ?parts - 1) = rev (takeWhile (\<lambda>c. c \<noteq> CHR ''/'') (rev function'))"
    by (simp only: last_Split)
  then show ?thesis
    by (simp add: parsePackage_def Let_def Split_not_Nil Cut_conv del: One_nat_def)
qed

lemma parsePackage_total: "\<exists>pkg ok. parsePackage function' = Inr (pkg, ok)"
  by (simp add: parsePackage_conv Let_def)

lemma parsePackage_callerModule:
  "parsePackage function' = Inr (pkg, ok) \<Longrightarrow>
   callerModule function' = (if ok then Some pkg else None)"
  by (auto simp add: parsePackage_conv callerModule_def Let_def split: if_splits)

lemma getLevelForRecord_conv:
  "deref st h = Inr hv \<Longrightarrow>
   getLevelForRecord frames st h record =
     Inr (effectiveLevel (defaultLevel hv) (mapAt st (perPackageLevel hv)) (frames (PC record)))"
proof -
  assume d: "deref st h = Inr hv"
  obtain pkg ok where p: "parsePackage (frames (PC record)) = Inr (pkg, ok)"
    using parsePackage_total by blast
  show ?thesis
    using d p parsePackage_callerModule [OF p]
    by (simp add: getLevelForRecord_def effectiveLevel_def mapLookup_def split: option.split)
qed

lemma callerModule_test:
  "callerModule (testFrames 2) = Some ''testpackage''"
  "callerModule (testFrames 1) = Some ''slog-env_test''"
  "callerModule (testFrames 0) = None"
  "callerModule ''main'' = None"
  "callerModule [] = None"
  by (simp_all add: callerModule_def testFrames_def)

text \<open>
  Claim C2. For every record, the effective level used by \<open>Handle\<close> is the default
  level when the overrides map is empty. Otherwise the module name is computed from the
  caller symbol by taking the last \<^verbatim>\<open>/\<close>-separated segment and the text before its first
  \<^verbatim>\<open>.\<close>; the effective level is the override of that module when the entry exists, and
  the default level when the resolution fails (no \<^verbatim>\<open>.\<close> in the segment, or no caller
  information: the empty symbol) or when the module has no entry. The resolution always
  returns a level, and \<open>Handle\<close> compares the level of the record with it: a failed
  resolution never fails the call.
\<close>

theorem getLevelForRecord_effective_level:
  "deref st h = Inr hv \<Longrightarrow>
   getLevelForRecord frames st h record =
     Inr (effectiveLevel (defaultLevel hv) (mapAt st (perPackageLevel hv)) (frames (PC record)))
   \<and> effectiveLevel (defaultLevel hv) (mapAt st (perPackageLevel hv)) [] = defaultLevel hv
   \<and> Handle ops frames st h ctx record w =
       (if Level record
             < effectiveLevel (defaultLevel hv) (mapAt st (perPackageLevel hv)) (frames (PC record))
        then Inr (None, w)
        else Inr (inner_Handle ops (inner hv) ctx record w))"
  by (simp add: Handle_def getLevelForRecord_conv effectiveLevel_def callerModule_def)

text \<open>
  The handler of \<open>testStore\<close> resolves a record logged from \<^verbatim>\<open>testpackage\<close> to the
  override of the package, and a record from the test's own package, or from an unknown
  caller, to the default level.
\<close>

theorem getLevelForRecord_effective_level_witness:
  "deref testStore 0 = Inr \<lparr>inner = (), defaultLevel = LevelError, perPackageLevel = 0\<rparr>
   \<and> getLevelForRecord testFrames testStore 0
        \<lparr>Time = 0, Message = ''testpackage debug'', Level = LevelDebug, PC = 2\<rparr> = Inr LevelDebug
   \<and> getLevelForRecord testFrames testStore 0
        \<lparr>Time = 0, Message = ''debug'', Level = LevelDebug, PC = 1\<rparr> = Inr LevelError
   \<and> getLevelForRecord testFrames testStore 0
        \<lparr>Time = 0, Message = ''debug'', Level = LevelDebug, PC = 0\<rparr> = Inr LevelError"
  using
    getLevelForRecord_effective_level
      [of testStore 0 "\<lparr>inner = (), defaultLevel = LevelError, perPackageLevel = 0\<rparr>" testFrames
          "\<lparr>Time = 0, Message = ''testpackage debug'', Level = LevelDebug, PC = 2\<rparr>"
          testHandler "()" "[]"]
    getLevelForRecord_effective_level
      [of testStore 0 "\<lparr>inner = (), defaultLevel = LevelError, perPackageLevel = 0\<rparr>" testFrames
          "\<lparr>Time = 0, Message = ''debug'', Level = LevelDebug, PC = 1\<rparr>"
          testHandler "()" "[]"]
    getLevelForRecord_effective_level
      [of testStore 0 "\<lparr>inner = (), defaultLevel = LevelError, perPackageLevel = 0\<rparr>" testFrames
          "\<lparr>Time = 0, Message = ''debug'', Level = LevelDebug, PC = 0\<rparr>"
          testHandler "()" "[]"]
  by (simp add: testStore_def deref_def mapAt_def effectiveLevel_def callerModule_test
      del: One_nat_def)

section \<open>Handle and Enabled\<close>

text \<open>\<open>Handle\<close> in one equation, for a pointer that refers to a handler.\<close>

lemma Handle_conv:
  "deref st h = Inr hv \<Longrightarrow>
   Handle ops frames st h ctx record w =
     (if Level record
           < effectiveLevel (defaultLevel hv) (mapAt st (perPackageLevel hv)) (frames (PC record))
      then Inr (None, w)
      else Inr (inner_Handle ops (inner hv) ctx record w))"
  by (simp add: Handle_def getLevelForRecord_conv)

lemmas handler_eval =
  Handle_def Enabled_def getLevelForRecord_def deref_def mapAt_def mapLookup_def
  LevelDebug_def LevelInfo_def LevelWarn_def LevelError_def

lemma parsePackage_test:
  "parsePackage (testFrames 0) = Inr ([], False)"
  "parsePackage (testFrames 1) = Inr (''slog-env_test'', True)"
  "parsePackage (testFrames 2) = Inr (''testpackage'', True)"
  by (simp_all add: testFrames_def string_eval)

text \<open>
  Claim C1. For every handler and every record, \<open>Handle\<close> resolves the effective level;
  when the level of the record is strictly below it, the record is dropped: the result is
  no error and the wrapped handler is not called (its state is unchanged). Otherwise the
  result is the result of one call of the wrapped handler's \<open>Handle\<close> with the same
  context and the same record: its error and its effects, with nothing added.
\<close>

theorem Handle_drops_or_forwards:
  "deref st h = Inr hv \<Longrightarrow>
   \<exists>level. getLevelForRecord frames st h record = Inr level \<and>
     Handle ops frames st h ctx record w =
       (if Level record < level then Inr (None, w)
        else Inr (inner_Handle ops (inner hv) ctx record w))"
  by (simp add: Handle_def getLevelForRecord_conv)

text \<open>
  With the handler of \<open>testStore\<close>: a debug record of the test's package is dropped, one
  of \<^verbatim>\<open>testpackage\<close> reaches the wrapped handler, and an error of the wrapped handler is
  the result of \<open>Handle\<close>.
\<close>

theorem Handle_drops_or_forwards_witness:
  "deref testStore 0 = Inr \<lparr>inner = (), defaultLevel = LevelError, perPackageLevel = 0\<rparr>
   \<and> Handle testHandler testFrames testStore 0 ()
        \<lparr>Time = 0, Message = ''debug'', Level = LevelDebug, PC = 1\<rparr> [''error'']
       = Inr (None, [''error''])
   \<and> Handle testHandler testFrames testStore 0 ()
        \<lparr>Time = 0, Message = ''testpackage debug'', Level = LevelDebug, PC = 2\<rparr> [''error'']
       = Inr (None, [''error'', ''testpackage debug''])
   \<and> Handle (testHandler\<lparr>inner_Handle := \<lambda>h ctx record messages. (Some ''write failed'', messages)\<rparr>)
        testFrames testStore 0 ()
        \<lparr>Time = 0, Message = ''testpackage debug'', Level = LevelDebug, PC = 2\<rparr> [''error'']
       = Inr (Some ''write failed'', [''error''])"
  using
    Handle_drops_or_forwards
      [of testStore 0 "\<lparr>inner = (), defaultLevel = LevelError, perPackageLevel = 0\<rparr>" testFrames
          "\<lparr>Time = 0, Message = ''debug'', Level = LevelDebug, PC = 1\<rparr>" testHandler "()" "[''error'']"]
    Handle_drops_or_forwards
      [of testStore 0 "\<lparr>inner = (), defaultLevel = LevelError, perPackageLevel = 0\<rparr>" testFrames
          "\<lparr>Time = 0, Message = ''testpackage debug'', Level = LevelDebug, PC = 2\<rparr>" testHandler "()" "[''error'']"]
    Handle_drops_or_forwards
      [of testStore 0 "\<lparr>inner = (), defaultLevel = LevelError, perPackageLevel = 0\<rparr>" testFrames
          "\<lparr>Time = 0, Message = ''testpackage debug'', Level = LevelDebug, PC = 2\<rparr>"
          "testHandler\<lparr>inner_Handle := \<lambda>h ctx record messages. (Some ''write failed'', messages)\<rparr>"
          "()" "[''error'']"]
  by (simp add: testStore_def testHandler_def handler_eval parsePackage_test del: One_nat_def)

text \<open>
  The handler built by \<open>NewHandler\<close> in the empty store with \<^verbatim>\<open>GO_LOG=info\<close>: it has
  no overrides.
\<close>

definition plainStore :: "unit store" where
  "plainStore =
     \<lparr>handlers = [\<lparr>inner = (), defaultLevel = LevelInfo, perPackageLevel = 0\<rparr>],
      levelMaps = [Mapping.empty]\<rparr>"

lemma NewHandler_plain:
  "NewHandler Level_parse (Setenv ''GO_LOG'' ''info'' emptyEnv) emptyStore () [] = Inr (0, plainStore)"
  by (simp add: NewHandler_def applyOpts_def chooseFilter_def env_eval parseFilter_def
      string_eval store_eval Level_parse_def upperByte_def emptyStore_def plainStore_def
      LevelInfo_def)

text \<open>
  Claim C5. For every handler whose overrides map is empty and every level,
  \<open>Enabled\<close> returns exactly \<open>level \<ge> defaultLevel\<close>, and \<open>Handle\<close> makes the same
  decision for a record at that level: it forwards the record when \<open>Enabled\<close> is true
  and drops it when \<open>Enabled\<close> is false. For every handler whose overrides map is not
  empty, \<open>Enabled\<close> returns true for every level.
\<close>

theorem Enabled_fast_path:
  "deref st h = Inr hv \<Longrightarrow>
   (Mapping.is_empty (mapAt st (perPackageLevel hv)) \<longrightarrow>
      Enabled st h ctx level = Inr (level \<ge> defaultLevel hv) \<and>
      Handle ops frames st h ctx' (record\<lparr>Level := level\<rparr>) w =
        (if level \<ge> defaultLevel hv
         then Inr (inner_Handle ops (inner hv) ctx' (record\<lparr>Level := level\<rparr>) w)
         else Inr (None, w)))
   \<and> (\<not> Mapping.is_empty (mapAt st (perPackageLevel hv)) \<longrightarrow>
      Enabled st h ctx level = Inr True)"
  by (simp add: Enabled_def Handle_conv effectiveLevel_def)

theorem Enabled_fast_path_witness:
  "deref plainStore 0 = Inr \<lparr>inner = (), defaultLevel = LevelInfo, perPackageLevel = 0\<rparr>
   \<and> Mapping.is_empty (mapAt plainStore 0)
   \<and> Enabled plainStore 0 () LevelDebug = Inr False
   \<and> Handle testHandler testFrames plainStore 0 ()
        \<lparr>Time = 0, Message = ''debug'', Level = LevelDebug, PC = 1\<rparr> [] = Inr (None, [])
   \<and> deref testStore 0 = Inr \<lparr>inner = (), defaultLevel = LevelError, perPackageLevel = 0\<rparr>
   \<and> \<not> Mapping.is_empty (mapAt testStore 0)
   \<and> Enabled testStore 0 () LevelDebug = Inr True"
  using
    Enabled_fast_path
      [of plainStore 0 "\<lparr>inner = (), defaultLevel = LevelInfo, perPackageLevel = 0\<rparr>" "()" LevelDebug
          testHandler testFrames "()" "\<lparr>Time = 0, Message = ''debug'', Level = LevelDebug, PC = 1\<rparr>" "[]"]
    Enabled_fast_path
      [of testStore 0 "\<lparr>inner = (), defaultLevel = LevelError, perPackageLevel = 0\<rparr>" "()" LevelDebug
          testHandler testFrames "()" "\<lparr>Time = 0, Message = ''debug'', Level = LevelDebug, PC = 1\<rparr>" "[]"]
  by (simp add: plainStore_def testStore_def deref_def mapAt_def LevelDebug_def LevelInfo_def)

text \<open>
  Claim C10. For every handler whose overrides map is empty, the decision of \<open>Handle\<close>
  depends only on the level of the record: two records of equal level receive the same
  decision whatever their program counters are, and whatever the run-time system would
  report for them, because the caller is not inspected on that path.
\<close>

theorem Handle_ignores_caller_without_overrides:
  "deref st h = Inr hv \<Longrightarrow> Mapping.is_empty (mapAt st (perPackageLevel hv)) \<Longrightarrow>
   Level r1 = Level r2 \<Longrightarrow>
   getLevelForRecord frames1 st h r1 = Inr (defaultLevel hv) \<and>
   getLevelForRecord frames2 st h r2 = Inr (defaultLevel hv) \<and>
   Handle ops frames1 st h ctx r1 w =
     (if Level r1 < defaultLevel hv then Inr (None, w)
      else Inr (inner_Handle ops (inner hv) ctx r1 w)) \<and>
   Handle ops frames2 st h ctx r2 w =
     (if Level r1 < defaultLevel hv then Inr (None, w)
      else Inr (inner_Handle ops (inner hv) ctx r2 w))"
  by (simp add: Handle_conv getLevelForRecord_conv effectiveLevel_def)

theorem Handle_ignores_caller_without_overrides_witness:
  "deref plainStore 0 = Inr \<lparr>inner = (), defaultLevel = LevelInfo, perPackageLevel = 0\<rparr>
   \<and> Mapping.is_empty (mapAt plainStore 0)
   \<and> Level \<lparr>Time = 0, Message = ''warn'', Level = LevelWarn, PC = 1\<rparr>
       = Level \<lparr>Time = 5, Message = ''testpackage warn'', Level = LevelWarn, PC = 2\<rparr>
   \<and> Handle testHandler testFrames plainStore 0 ()
        \<lparr>Time = 0, Message = ''warn'', Level = LevelWarn, PC = 1\<rparr> [] = Inr (None, [''warn''])
   \<and> Handle testHandler (\<lambda>pc. []) plainStore 0 ()
        \<lparr>Time = 5, Message = ''testpackage warn'', Level = LevelWarn, PC = 2\<rparr> []
       = Inr (None, [''testpackage warn''])"
  using
    Handle_ignores_caller_without_overrides
      [of plainStore 0 "\<lparr>inner = (), defaultLevel = LevelInfo, perPackageLevel = 0\<rparr>"
          "\<lparr>Time = 0, Message = ''warn'', Level = LevelWarn, PC = 1\<rparr>"
          "\<lparr>Time = 5, Message = ''testpackage warn'', Level = LevelWarn, PC = 2\<rparr>"
          testFrames "\<lambda>pc. []" testHandler "()" "[]"]
  by (simp add: plainStore_def testHandler_def deref_def mapAt_def LevelWarn_def LevelInfo_def)

section \<open>WithAttrs and WithGroup\<close>

text \<open>What allocating a handler changes in the store, and what it leaves as it was.\<close>

lemma newHandler_frame:
  "deref st h = Inr hv \<Longrightarrow> newHandler st hv' = (h', st') \<Longrightarrow>
   deref st h' = Inl NilPointerDereference \<and> deref st' h' = Inr hv' \<and>
   deref st' h = Inr hv \<and> levelMaps st' = levelMaps st \<and>
   take (length (handlers st)) (handlers st') = handlers st \<and>
   mapAt st' m = mapAt st m"
  by (auto simp add: newHandler_def deref_def mapAt_def nth_append split: if_splits)

lemma derived_level:
  "deref st h = Inr hv \<Longrightarrow> deref st' h' = Inr hv' \<Longrightarrow> levelMaps st' = levelMaps st \<Longrightarrow>
   defaultLevel hv' = defaultLevel hv \<Longrightarrow> perPackageLevel hv' = perPackageLevel hv \<Longrightarrow>
   getLevelForRecord frames st' h' record = getLevelForRecord frames st h record"
  by (simp add: getLevelForRecord_conv mapAt_def)

text \<open>
  Claim C6. For every handler, \<open>WithAttrs\<close> and \<open>WithGroup\<close> return a new handler (a
  pointer that referred to no handler before) that wraps the wrapped handler's
  \<open>WithAttrs\<close>, respectively \<open>WithGroup\<close>, and has the same \<open>defaultLevel\<close> and the same
  reference \<open>perPackageLevel\<close>: the map is shared, and no map of the store is created or
  changed. The receiver and every other handler of the store are as they were. For any
  record the new handler resolves the same level as its parent, so it drops the record
  exactly when the parent does, and forwards it to the derived wrapped handler otherwise.
\<close>

theorem derived_handlers_keep_the_filter:
  "deref st h = Inr hv \<Longrightarrow>
   (\<exists>h' st' w' hv'.
      WithAttrs ops st h attrs w = Inr (h', st', w')
      \<and> inner_WithAttrs ops (inner hv) attrs w = (inner hv', w')
      \<and> deref st h' = Inl NilPointerDereference
      \<and> deref st' h' = Inr hv'
      \<and> defaultLevel hv' = defaultLevel hv
      \<and> perPackageLevel hv' = perPackageLevel hv
      \<and> levelMaps st' = levelMaps st
      \<and> deref st' h = Inr hv
      \<and> take (length (handlers st)) (handlers st') = handlers st
      \<and> getLevelForRecord frames st' h' record = getLevelForRecord frames st h record
      \<and> (\<exists>level. getLevelForRecord frames st h record = Inr level
            \<and> Handle ops frames st' h' ctx record w2 =
                (if Level record < level then Inr (None, w2)
                 else Inr (inner_Handle ops (inner hv') ctx record w2))))
   \<and> (\<exists>h' st' w' hv'.
      WithGroup ops st h name w = Inr (h', st', w')
      \<and> inner_WithGroup ops (inner hv) name w = (inner hv', w')
      \<and> deref st h' = Inl NilPointerDereference
      \<and> deref st' h' = Inr hv'
      \<and> defaultLevel hv' = defaultLevel hv
      \<and> perPackageLevel hv' = perPackageLevel hv
      \<and> levelMaps st' = levelMaps st
      \<and> deref st' h = Inr hv
      \<and> take (length (handlers st)) (handlers st') = handlers st
      \<and> getLevelForRecord frames st' h' record = getLevelForRecord frames st h record
      \<and> (\<exists>level. getLevelForRecord frames st h record = Inr level
            \<and> Handle ops frames st' h' ctx record w2 =
                (if Level record < level then Inr (None, w2)
                 else Inr (inner_Handle ops (inner hv') ctx record w2))))"
proof -
  assume d: "deref st h = Inr hv"
  have gen: "\<exists>h' st' hv'.
      newHandler st \<lparr>inner = i, defaultLevel = defaultLevel hv, perPackageLevel = perPackageLevel hv\<rparr>
        = (h', st')
      \<and> inner hv' = i
      \<and> deref st h' = Inl NilPointerDereference
      \<and> deref st' h' = Inr hv'
      \<and> defaultLevel hv' = defaultLevel hv
      \<and> perPackageLevel hv' = perPackageLevel hv
      \<and> levelMaps st' = levelMaps st
      \<and> deref st' h = Inr hv
      \<and> take (length (handlers st)) (handlers st') = handlers st
      \<and> getLevelForRecord frames st' h' record = getLevelForRecord frames st h record
      \<and> (\<exists>level. getLevelForRecord frames st h record = Inr level
            \<and> Handle ops frames st' h' ctx record w2 =
                (if Level record < level then Inr (None, w2)
                 else Inr (inner_Handle ops (inner hv') ctx record w2)))" for i
  proof -
    let ?hv' = "\<lparr>inner = i, defaultLevel = defaultLevel hv, perPackageLevel = perPackageLevel hv\<rparr>"
    obtain h' st' where n: "newHandler st ?hv' = (h', st')"
      by (cases "newHandler st ?hv'")
    note f = newHandler_frame [OF d n]
    have l: "getLevelForRecord frames st' h' record = getLevelForRecord frames st h record"
      using d f by (intro derived_level [where hv = hv and hv' = ?hv']) simp_all
    have "Handle ops frames st' h' ctx record w2 =
            (if Level record < effectiveLevel (defaultLevel hv) (mapAt st (perPackageLevel hv)) (frames (PC record))
             then Inr (None, w2) else Inr (inner_Handle ops i ctx record w2))"
      using f by (simp add: Handle_conv [where hv = ?hv'])
    with n f l d show ?thesis
      by (simp add: getLevelForRecord_conv [where hv = hv])
  qed
  show ?thesis
  proof (intro conjI)
    obtain i w' where a: "inner_WithAttrs ops (inner hv) attrs w = (i, w')"
      by (cases "inner_WithAttrs ops (inner hv) attrs w")
    from gen [of i] d a show "\<exists>h' st' w' hv'.
      WithAttrs ops st h attrs w = Inr (h', st', w')
      \<and> inner_WithAttrs ops (inner hv) attrs w = (inner hv', w')
      \<and> deref st h' = Inl NilPointerDereference
      \<and> deref st' h' = Inr hv'
      \<and> defaultLevel hv' = defaultLevel hv
      \<and> perPackageLevel hv' = perPackageLevel hv
      \<and> levelMaps st' = levelMaps st
      \<and> deref st' h = Inr hv
      \<and> take (length (handlers st)) (handlers st') = handlers st
      \<and> getLevelForRecord frames st' h' record = getLevelForRecord frames st h record
      \<and> (\<exists>level. getLevelForRecord frames st h record = Inr level
            \<and> Handle ops frames st' h' ctx record w2 =
                (if Level record < level then Inr (None, w2)
                 else Inr (inner_Handle ops (inner hv') ctx record w2)))"
      by (auto simp add: WithAttrs_def)
  next
    obtain i w' where a: "inner_WithGroup ops (inner hv) name w = (i, w')"
      by (cases "inner_WithGroup ops (inner hv) name w")
    from gen [of i] d a show "\<exists>h' st' w' hv'.
      WithGroup ops st h name w = Inr (h', st', w')
      \<and> inner_WithGroup ops (inner hv) name w = (inner hv', w')
      \<and> deref st h' = Inl NilPointerDereference
      \<and> deref st' h' = Inr hv'
      \<and> defaultLevel hv' = defaultLevel hv
      \<and> perPackageLevel hv' = perPackageLevel hv
      \<and> levelMaps st' = levelMaps st
      \<and> deref st' h = Inr hv
      \<and> take (length (handlers st)) (handlers st') = handlers st
      \<and> getLevelForRecord frames st' h' record = getLevelForRecord frames st h record
      \<and> (\<exists>level. getLevelForRecord frames st h record = Inr level
            \<and> Handle ops frames st' h' ctx record w2 =
                (if Level record < level then Inr (None, w2)
                 else Inr (inner_Handle ops (inner hv') ctx record w2)))"
      by (auto simp add: WithGroup_def)
  qed
qed

text \<open>The store after deriving a handler from the one of \<open>testStore\<close>.\<close>

definition derivedStore :: "unit store" where
  "derivedStore =
     \<lparr>handlers = [\<lparr>inner = (), defaultLevel = LevelError, perPackageLevel = 0\<rparr>,
                  \<lparr>inner = (), defaultLevel = LevelError, perPackageLevel = 0\<rparr>],
      levelMaps = [Mapping.update ''testpackage'' LevelDebug Mapping.empty]\<rparr>"

theorem derived_handlers_keep_the_filter_witness:
  "deref testStore 0 = Inr \<lparr>inner = (), defaultLevel = LevelError, perPackageLevel = 0\<rparr>
   \<and> WithAttrs testHandler testStore 0 [()] [''error''] = Inr (1, derivedStore, [''error''])
   \<and> WithGroup testHandler testStore 0 ''request'' [''error''] = Inr (1, derivedStore, [''error''])
   \<and> getLevelForRecord testFrames derivedStore 1
        \<lparr>Time = 0, Message = ''testpackage debug'', Level = LevelDebug, PC = 2\<rparr> = Inr LevelDebug
   \<and> Handle testHandler testFrames derivedStore 1 ()
        \<lparr>Time = 0, Message = ''testpackage debug'', Level = LevelDebug, PC = 2\<rparr> [''error'']
       = Inr (None, [''error'', ''testpackage debug''])
   \<and> Handle testHandler testFrames derivedStore 1 ()
        \<lparr>Time = 0, Message = ''debug'', Level = LevelDebug, PC = 1\<rparr> [''error'']
       = Inr (None, [''error''])"
  using
    derived_handlers_keep_the_filter
      [of testStore 0 "\<lparr>inner = (), defaultLevel = LevelError, perPackageLevel = 0\<rparr>"
          testHandler "[()]" "[''error'']" testFrames
          "\<lparr>Time = 0, Message = ''testpackage debug'', Level = LevelDebug, PC = 2\<rparr>"
          "()" "[''error'']" "''request''"]
    derived_handlers_keep_the_filter
      [of testStore 0 "\<lparr>inner = (), defaultLevel = LevelError, perPackageLevel = 0\<rparr>"
          testHandler "[()]" "[''error'']" testFrames
          "\<lparr>Time = 0, Message = ''debug'', Level = LevelDebug, PC = 1\<rparr>"
          "()" "[''error'']" "''request''"]
  by (simp add: testStore_def derivedStore_def testHandler_def WithAttrs_def WithGroup_def
      newHandler_def handler_eval parsePackage_test del: One_nat_def)

section \<open>parseFilter\<close>

subsection \<open>The loop as a fold\<close>

text \<open>
  One iteration of the loop of \<open>parseFilter\<close> on the values it works with: the running
  default level and the content of the map. It is used in the proofs only; \<open>parseFilter_foldl\<close>
  shows that \<open>parseFilter\<close> never panics and that its results are those of the fold.
\<close>

definition termStep ::
  "(string \<Rightarrow> error + Level) \<Rightarrow> Level \<times> (string, Level) mapping \<Rightarrow> string
     \<Rightarrow> Level \<times> (string, Level) mapping" where
  "termStep dec s t =
     (case Cut t CHR ''='' of
        (first, second, ok) \<Rightarrow>
          if \<not> ok then (fst (UnmarshalText dec (fst s) first), snd s)
          else (fst s,
                Mapping.update first
                  (fst (UnmarshalText dec (Mapping.lookup_default 0 (snd s) first) second))
                  (snd s)))"

lemma parseFilterLoop_foldl:
  "m < length (levelMaps st) \<Longrightarrow>
   parseFilterLoop dec m ts d st =
     Inr (fst (foldl (termStep dec) (d, levelMaps st ! m) ts),
          st\<lparr>levelMaps := (levelMaps st)[m := snd (foldl (termStep dec) (d, levelMaps st ! m) ts)]\<rparr>)"
proof (induction ts arbitrary: d st)
  case Nil
  then show ?case by simp
next
  case (Cons t ts)
  obtain first second ok where c: "Cut t CHR ''='' = (first, second, ok)"
    by (cases "Cut t CHR ''=''")
  show ?case
  proof (cases ok)
    case False
    with c Cons show ?thesis by (simp add: termStep_def)
  next
    case True
    let ?v = "fst (UnmarshalText dec (Mapping.lookup_default 0 (levelMaps st ! m) first) second)"
    let ?st' = "st\<lparr>levelMaps := (levelMaps st)[m := Mapping.update first ?v (levelMaps st ! m)]\<rparr>"
    have l: "fst (mapLookup st m first) = Mapping.lookup_default 0 (levelMaps st ! m) first"
      using Cons.prems by (simp add: mapLookup_def mapAt_def Mapping.lookup_default_def split: option.split)
    have a: "mapAssign st m first ?v = Inr ?st'"
      using Cons.prems by (simp add: mapAssign_def)
    have m': "m < length (levelMaps ?st')" using Cons.prems by simp
    show ?thesis
      using c True l a Cons.IH [OF m', of d] Cons.prems
      by (simp add: termStep_def Let_def)
  qed
qed

lemma parseFilter_foldl:
  "parseFilter dec st d f =
     Inr (fst (foldl (termStep dec) (d, Mapping.empty) (Split f CHR '','')),
          length (levelMaps st),
          st\<lparr>levelMaps := levelMaps st @ [snd (foldl (termStep dec) (d, Mapping.empty) (Split f CHR '',''))]\<rparr>)"
  by (simp add: parseFilter_def makeMap_def parseFilterLoop_foldl)

lemma parseFilterLoop_total:
  "m < length (levelMaps st) \<Longrightarrow>
   \<exists>d' st'. parseFilterLoop dec m ts d st = Inr (d', st') \<and>
     m < length (levelMaps st') \<and> handlers st' = handlers st \<and>
     d' = fst (foldl (termStep dec) (d, mapAt st m) ts) \<and>
     mapAt st' m = snd (foldl (termStep dec) (d, mapAt st m) ts)"
  by (simp add: parseFilterLoop_foldl mapAt_def)

lemma parseFilterLoop_append:
  "m < length (levelMaps st) \<Longrightarrow>
   parseFilterLoop dec m (xs @ ys) d st =
     (case parseFilterLoop dec m xs d st of
        Inl p \<Rightarrow> Inl p
      | Inr (d', st') \<Rightarrow> parseFilterLoop dec m ys d' st')"
  by (simp add: parseFilterLoop_foldl)

subsection \<open>Terms, in the words of the specification\<close>

text \<open>
  A term is a bare level when it has no \<^verbatim>\<open>=\<close>; otherwise it is a pair, whose module is
  the text before the first \<^verbatim>\<open>=\<close> and whose level token is the text after it. The level
  token of a bare term is the term. A term is valid when its level token decodes.
  \<open>lastBareLevel\<close> is the level of the last bare term of a list, \<open>lastModuleLevel\<close> the
  level of the last pair of a module; both are \<open>None\<close> when there is no such term.
\<close>

definition bareTerm :: "string \<Rightarrow> bool" where
  "bareTerm t \<longleftrightarrow> CHR ''='' \<notin> set t"

definition termModule :: "string \<Rightarrow> string" where
  "termModule t = takeWhile (\<lambda>c. c \<noteq> CHR ''='') t"

definition termLevel :: "string \<Rightarrow> string" where
  "termLevel t = (if bareTerm t then t else tl (dropWhile (\<lambda>c. c \<noteq> CHR ''='') t))"

definition validTerm :: "(string \<Rightarrow> error + Level) \<Rightarrow> string \<Rightarrow> bool" where
  "validTerm dec t = (case dec (termLevel t) of Inl e \<Rightarrow> False | Inr v \<Rightarrow> True)"

definition levelOf :: "(string \<Rightarrow> error + Level) \<Rightarrow> string \<Rightarrow> Level option" where
  "levelOf dec t = (case dec (termLevel t) of Inl e \<Rightarrow> None | Inr v \<Rightarrow> Some v)"

definition lastBareLevel :: "(string \<Rightarrow> error + Level) \<Rightarrow> string list \<Rightarrow> Level option" where
  "lastBareLevel dec terms =
     (let bare = filter bareTerm terms
      in if bare = [] then None else levelOf dec (last bare))"

definition lastModuleLevel ::
  "(string \<Rightarrow> error + Level) \<Rightarrow> string list \<Rightarrow> string \<Rightarrow> Level option" where
  "lastModuleLevel dec terms module =
     (let pairs = filter (\<lambda>t. \<not> bareTerm t \<and> termModule t = module) terms
      in if pairs = [] then None else levelOf dec (last pairs))"

lemma termStep_conv:
  "termStep dec (d, M) t =
     (if bareTerm t then (case dec t of Inl e \<Rightarrow> d | Inr v \<Rightarrow> v, M)
      else (d, Mapping.update (termModule t)
                 (case dec (termLevel t) of
                    Inl e \<Rightarrow> Mapping.lookup_default 0 M (termModule t)
                  | Inr v \<Rightarrow> v) M))"
  by (simp add: termStep_def Cut_conv bareTerm_def termModule_def termLevel_def UnmarshalText_def
      split: sum.split)

lemma foldl_termStep_other:
  "\<forall>u \<in> set ts. bareTerm u \<or> termModule u \<noteq> k \<Longrightarrow>
   Mapping.lookup (snd (foldl (termStep dec) (d, M) ts)) k = Mapping.lookup M k"
proof (induction ts arbitrary: d M)
  case Nil
  then show ?case by simp
next
  case (Cons t ts)
  then show ?case by (auto simp add: termStep_conv)
qed

text \<open>
  The run of \<open>parseFilter\<close> on a filter whose list of terms is \<open>pre @ t # post\<close>: the loop
  over \<open>pre\<close>, one iteration on \<open>t\<close>, the loop over \<open>post\<close>.
\<close>

lemma parseFilter_run:
  "Split f CHR '','' = pre @ t # post \<Longrightarrow>
   \<exists>d1 st1 d2 st2 d3 st3.
     parseFilterLoop dec (length (levelMaps st)) pre d (snd (makeMap st)) = Inr (d1, st1)
     \<and> parseFilterLoop dec (length (levelMaps st)) [t] d1 st1 = Inr (d2, st2)
     \<and> parseFilterLoop dec (length (levelMaps st)) post d2 st2 = Inr (d3, st3)
     \<and> parseFilter dec st d f = Inr (d3, length (levelMaps st), st3)
     \<and> handlers st2 = handlers st1
     \<and> mapAt st1 (length (levelMaps st)) = snd (foldl (termStep dec) (d, Mapping.empty) pre)
     \<and> (d2, mapAt st2 (length (levelMaps st)))
          = termStep dec (d1, mapAt st1 (length (levelMaps st))) t
     \<and> mapAt st3 (length (levelMaps st))
          = snd (foldl (termStep dec) (d2, mapAt st2 (length (levelMaps st))) post)"
proof -
  assume sp: "Split f CHR '','' = pre @ t # post"
  let ?m = "length (levelMaps st)"
  let ?st0 = "snd (makeMap st)"
  have m0: "?m < length (levelMaps ?st0)" by (simp add: makeMap_def)
  have e0: "mapAt ?st0 ?m = Mapping.empty" by (simp add: makeMap_def mapAt_def)
  from parseFilterLoop_total [OF m0, of dec pre d] obtain d1 st1 where
    r1: "parseFilterLoop dec ?m pre d ?st0 = Inr (d1, st1)" and m1: "?m < length (levelMaps st1)"
    and a1: "mapAt st1 ?m = snd (foldl (termStep dec) (d, Mapping.empty) pre)"
    using e0 by auto
  from parseFilterLoop_total [OF m1, of dec "[t]" d1] obtain d2 st2 where
    r2: "parseFilterLoop dec ?m [t] d1 st1 = Inr (d2, st2)" and m2: "?m < length (levelMaps st2)"
    and h2: "handlers st2 = handlers st1"
    and a2: "(d2, mapAt st2 ?m) = termStep dec (d1, mapAt st1 ?m) t"
    by auto
  from parseFilterLoop_total [OF m2, of dec post d2] obtain d3 st3 where
    r3: "parseFilterLoop dec ?m post d2 st2 = Inr (d3, st3)"
    and a3: "mapAt st3 ?m = snd (foldl (termStep dec) (d2, mapAt st2 ?m) post)"
    by auto
  have "parseFilterLoop dec ?m (pre @ [t] @ post) d ?st0 = Inr (d3, st3)"
    using r1 r2 r3 m0 m1 by (simp only: parseFilterLoop_append sum.case prod.case)
  then have "parseFilter dec st d f = Inr (d3, ?m, st3)"
    using sp by (simp add: parseFilter_def makeMap_def)
  with r1 r2 r3 h2 a1 a2 a3 show ?thesis by blast
qed

lemmas filter_eval =
  parseFilter_def string_eval store_eval Level_parse_def upperByte_def emptyStore_def
  bareTerm_def termModule_def termLevel_def validTerm_def levelOf_def lastBareLevel_def
  lastModuleLevel_def LevelDebug_def LevelInfo_def LevelWarn_def LevelError_def

subsection \<open>Later terms take precedence\<close>

lemma foldl_termStep_valid:
  "\<forall>t \<in> set ts. validTerm dec t \<Longrightarrow>
   fst (foldl (termStep dec) (d, M) ts) = (case lastBareLevel dec ts of None \<Rightarrow> d | Some v \<Rightarrow> v)
   \<and> Mapping.lookup (snd (foldl (termStep dec) (d, M) ts)) module =
       (case lastModuleLevel dec ts module of None \<Rightarrow> Mapping.lookup M module | Some v \<Rightarrow> Some v)"
proof (induction ts rule: rev_induct)
  case Nil
  then show ?case by (simp add: lastBareLevel_def lastModuleLevel_def)
next
  case (snoc t ts)
  obtain d' M' where s: "foldl (termStep dec) (d, M) ts = (d', M')"
    by (cases "foldl (termStep dec) (d, M) ts")
  from snoc.prems obtain v where v: "dec (termLevel t) = Inr v"
    by (auto simp add: validTerm_def split: sum.splits)
  from snoc have ih:
    "d' = (case lastBareLevel dec ts of None \<Rightarrow> d | Some v \<Rightarrow> v)"
    "Mapping.lookup M' module =
       (case lastModuleLevel dec ts module of None \<Rightarrow> Mapping.lookup M module | Some v \<Rightarrow> Some v)"
    using s by simp_all
  show ?case
  proof (cases "bareTerm t")
    case True
    with v have "dec t = Inr v" by (simp add: termLevel_def)
    with True s ih v show ?thesis
      by (simp add: termStep_conv lastBareLevel_def lastModuleLevel_def levelOf_def Let_def)
  next
    case False
    with s ih v show ?thesis
      by (simp add: termStep_conv lastBareLevel_def lastModuleLevel_def levelOf_def Let_def
          Mapping.lookup_update')
  qed
qed

text \<open>
  Claim C3. For every filter string whose terms all carry valid level tokens,
  \<open>parseFilter\<close> applies the terms from left to right and later terms take precedence: the
  resolved default level is the level of the last bare term (the given default level when
  there is no bare term), and for each module the override is the level of the last pair
  of that module (no entry when the module has no pair).
\<close>

theorem parseFilter_later_terms_win:
  "\<forall>t \<in> set (Split f CHR '',''). validTerm dec t \<Longrightarrow>
   \<exists>st'. parseFilter dec st d f =
           Inr (case lastBareLevel dec (Split f CHR '','') of None \<Rightarrow> d | Some v \<Rightarrow> v,
                length (levelMaps st), st')
     \<and> Mapping.lookup (mapAt st' (length (levelMaps st))) module
         = lastModuleLevel dec (Split f CHR '','') module"
  using foldl_termStep_valid [of "Split f CHR '',''" dec d Mapping.empty module]
  by (simp add: parseFilter_foldl mapAt_def split: option.split)

text \<open>
  In \<^verbatim>\<open>debug,mypackage=error,warn,mypackage=info\<close> the last bare term is \<^verbatim>\<open>warn\<close> and the
  last pair of \<^verbatim>\<open>mypackage\<close> gives \<^verbatim>\<open>info\<close>.
\<close>

theorem parseFilter_later_terms_win_witness:
  "list_all (validTerm Level_parse) (Split ''debug,mypackage=error,warn,mypackage=info'' CHR '','')
   \<and> lastBareLevel Level_parse (Split ''debug,mypackage=error,warn,mypackage=info'' CHR '','')
       = Some LevelWarn
   \<and> lastModuleLevel Level_parse (Split ''debug,mypackage=error,warn,mypackage=info'' CHR '','')
        ''mypackage'' = Some LevelInfo
   \<and> (\<exists>st'. parseFilter Level_parse emptyStore LevelError ''debug,mypackage=error,warn,mypackage=info''
               = Inr (LevelWarn, 0, st')
          \<and> Mapping.lookup (mapAt st' 0) ''mypackage'' = Some LevelInfo)"
  using parseFilter_later_terms_win
    [of "''debug,mypackage=error,warn,mypackage=info''" Level_parse emptyStore LevelError
        "''mypackage''"]
  by (simp add: filter_eval)

subsection \<open>Level tokens that do not decode\<close>

lemma update_same: "Mapping.lookup M k = Some v \<Longrightarrow> Mapping.update k v M = M"
  by (rule mapping_eqI) (auto simp add: Mapping.lookup_update')

text \<open>
  Claim C4 says that a term whose level token fails to decode is ignored: its target keeps
  its prior value. For a pair whose module has no entry there is no prior entry to keep, and
  the loop still assigns \<^verbatim>\<open>perPackageLevel[first] = packageLevel\<close> with the zero value it
  read. \<^verbatim>\<open>error,testpackage=bogus\<close> gives the map with \<^verbatim>\<open>testpackage\<close> at \<open>LevelInfo\<close>,
  where \<^verbatim>\<open>error\<close> alone gives the empty map: a record of \<^verbatim>\<open>testpackage\<close> is then held
  against \<open>LevelInfo\<close> instead of \<open>LevelError\<close>.
\<close>

theorem parseFilter_undecodable_pair_counterexample:
  "Level_parse (termLevel ''testpackage=bogus'') = Inl ''unknown name''
   \<and> parseFilter Level_parse emptyStore LevelInfo ''error,testpackage=bogus''
       = Inr (LevelError, 0,
              \<lparr>handlers = [],
               levelMaps = [Mapping.update ''testpackage'' LevelInfo Mapping.empty]\<rparr>)
   \<and> parseFilter Level_parse emptyStore LevelInfo ''error''
       = Inr (LevelError, 0, \<lparr>handlers = [], levelMaps = [Mapping.empty]\<rparr>)
   \<and> Mapping.lookup (Mapping.update ''testpackage'' LevelInfo Mapping.empty) ''testpackage''
       = Some LevelInfo
   \<and> Mapping.lookup Mapping.empty ''testpackage'' = (None :: Level option)
   \<and> LevelInfo < LevelError
   \<and> getLevelForRecord testFrames
        \<lparr>handlers = [\<lparr>inner = (), defaultLevel = LevelError, perPackageLevel = 0\<rparr>],
         levelMaps = [Mapping.update ''testpackage'' LevelInfo Mapping.empty]\<rparr> 0
        \<lparr>Time = 0, Message = ''testpackage info'', Level = LevelInfo, PC = 2\<rparr> = Inr LevelInfo
   \<and> getLevelForRecord testFrames
        \<lparr>handlers = [\<lparr>inner = (), defaultLevel = LevelError, perPackageLevel = 0\<rparr>],
         levelMaps = [Mapping.empty]\<rparr> 0
        \<lparr>Time = 0, Message = ''testpackage info'', Level = LevelInfo, PC = 2\<rparr> = Inr LevelError"
  by (simp add: filter_eval getLevelForRecord_def testFrames_def)

text \<open>
  Claim C4, amended. For every filter string, a term whose level token fails to decode
  surfaces no error: \<open>parseFilter\<close> returns its two results, with no panic. The iteration
  on that term leaves the running default level as it was. A bare term leaves the store as
  it was, and so does a pair whose module has an entry: the override keeps its prior value.
  A pair whose module has no entry records an entry for the module with the zero value of
  the level type, \<open>LevelInfo\<close>, so that the map is not empty afterwards. In every case the
  entries of the other modules are as they were.
\<close>

theorem parseFilter_undecodable_level:
  "Split f CHR '','' = pre @ t # post \<Longrightarrow> dec (termLevel t) = Inl e \<Longrightarrow>
   \<exists>d1 st1 st2 d3 st3.
     parseFilterLoop dec (length (levelMaps st)) pre d (snd (makeMap st)) = Inr (d1, st1)
     \<and> parseFilterLoop dec (length (levelMaps st)) [t] d1 st1 = Inr (d1, st2)
     \<and> parseFilterLoop dec (length (levelMaps st)) post d1 st2 = Inr (d3, st3)
     \<and> parseFilter dec st d f = Inr (d3, length (levelMaps st), st3)
     \<and> (bareTerm t \<longrightarrow> st2 = st1)
     \<and> (snd (mapLookup st1 (length (levelMaps st)) (termModule t)) \<longrightarrow> st2 = st1)
     \<and> (\<not> bareTerm t \<and> \<not> snd (mapLookup st1 (length (levelMaps st)) (termModule t)) \<longrightarrow>
           mapLookup st1 (length (levelMaps st)) (termModule t) = (0, False)
           \<and> mapLookup st2 (length (levelMaps st)) (termModule t) = (LevelInfo, True)
           \<and> mapAt st2 (length (levelMaps st))
               = Mapping.update (termModule t) LevelInfo (mapAt st1 (length (levelMaps st)))
           \<and> \<not> Mapping.is_empty (mapAt st2 (length (levelMaps st))))
     \<and> fst (mapLookup st2 (length (levelMaps st)) (termModule t))
         = fst (mapLookup st1 (length (levelMaps st)) (termModule t))
     \<and> (\<forall>k. k \<noteq> termModule t \<longrightarrow>
           mapLookup st2 (length (levelMaps st)) k = mapLookup st1 (length (levelMaps st)) k)
     \<and> handlers st2 = handlers st1"
proof -
  assume sp: "Split f CHR '','' = pre @ t # post" and bad: "dec (termLevel t) = Inl e"
  let ?m = "length (levelMaps st)"
  from parseFilter_run [OF sp, of dec st d] obtain d1 st1 d2 st2 d3 st3 where
    r: "parseFilterLoop dec ?m pre d (snd (makeMap st)) = Inr (d1, st1)"
       "parseFilterLoop dec ?m [t] d1 st1 = Inr (d2, st2)"
       "parseFilterLoop dec ?m post d2 st2 = Inr (d3, st3)"
       "parseFilter dec st d f = Inr (d3, ?m, st3)"
       "handlers st2 = handlers st1"
    and a2: "(d2, mapAt st2 ?m) = termStep dec (d1, mapAt st1 ?m) t"
    by blast
  from bad have bad': "bareTerm t \<Longrightarrow> dec t = Inl e" by (simp add: termLevel_def)
  from a2 bad bad' have d2: "d2 = d1"
    by (simp add: termStep_conv split: if_splits)
  from a2 bad bad' have M2:
    "mapAt st2 ?m =
       (if bareTerm t then mapAt st1 ?m
        else Mapping.update (termModule t)
               (Mapping.lookup_default 0 (mapAt st1 ?m) (termModule t)) (mapAt st1 ?m))"
    by (simp add: termStep_conv split: if_splits)
  have "fst (mapLookup st2 ?m (termModule t)) = fst (mapLookup st1 ?m (termModule t))"
    by (simp add: mapLookup_def M2 Mapping.lookup_default_def split: option.split)
  moreover have "\<forall>k. k \<noteq> termModule t \<longrightarrow> mapLookup st2 ?m k = mapLookup st1 ?m k"
    by (simp add: mapLookup_def M2)
  moreover have "bareTerm t \<longrightarrow> st2 = st1"
    using r(2) by (auto simp add: Cut_conv bareTerm_def)
  moreover have "snd (mapLookup st1 ?m (termModule t)) \<longrightarrow> st2 = st1"
  proof
    assume p: "snd (mapLookup st1 ?m (termModule t))"
    then obtain v where v: "Mapping.lookup (mapAt st1 ?m) (termModule t) = Some v"
      by (auto simp add: mapLookup_def split: option.splits)
    then have lt: "?m < length (levelMaps st1)"
      by (auto simp add: mapAt_def split: if_splits)
    with v have v': "Mapping.lookup (levelMaps st1 ! ?m) (termModule t) = Some v"
      by (simp add: mapAt_def)
    show "st2 = st1"
    proof (cases "bareTerm t")
      case True
      with r(2) show ?thesis by (auto simp add: Cut_conv bareTerm_def)
    next
      case False
      with r(2) bad lt v' show ?thesis
        by (auto simp add: Cut_conv bareTerm_def termLevel_def termModule_def mapLookup_def
            mapAt_def mapAssign_def UnmarshalText_def update_same)
    qed
  qed
  moreover have "\<not> bareTerm t \<and> \<not> snd (mapLookup st1 ?m (termModule t)) \<longrightarrow>
           mapLookup st1 ?m (termModule t) = (0, False)
           \<and> mapLookup st2 ?m (termModule t) = (LevelInfo, True)
           \<and> mapAt st2 ?m = Mapping.update (termModule t) LevelInfo (mapAt st1 ?m)
           \<and> \<not> Mapping.is_empty (mapAt st2 ?m)"
    by (auto simp add: mapLookup_def M2 Mapping.lookup_default_def LevelInfo_def
        split: option.splits)
  ultimately show ?thesis using r d2 by blast
qed

text \<open>
  \<^verbatim>\<open>testpackage=bogus\<close> after \<^verbatim>\<open>error\<close> records \<^verbatim>\<open>testpackage\<close> at \<open>LevelInfo\<close>. In
  \<^verbatim>\<open>debug,mypackage=error,verbose,mypackage=loud\<close> neither \<^verbatim>\<open>verbose\<close> nor \<^verbatim>\<open>loud\<close> is a
  level: the default stays \<^verbatim>\<open>debug\<close> and the override of \<^verbatim>\<open>mypackage\<close> stays \<^verbatim>\<open>error\<close>.
\<close>

theorem parseFilter_undecodable_level_witness:
  "Split ''error,testpackage=bogus'' CHR '','' = [''error''] @ ''testpackage=bogus'' # []
   \<and> Level_parse (termLevel ''testpackage=bogus'') = Inl ''unknown name''
   \<and> parseFilter Level_parse emptyStore LevelInfo ''error,testpackage=bogus''
       = Inr (LevelError, 0,
              \<lparr>handlers = [],
               levelMaps = [Mapping.update ''testpackage'' LevelInfo Mapping.empty]\<rparr>)
   \<and> Split ''debug,mypackage=error,verbose,mypackage=loud'' CHR '',''
     = [''debug'', ''mypackage=error'', ''verbose''] @ ''mypackage=loud'' # []
   \<and> Level_parse (termLevel ''mypackage=loud'') = Inl ''unknown name''
   \<and> Split ''debug,mypackage=error,verbose,mypackage=loud'' CHR '',''
     = [''debug'', ''mypackage=error''] @ ''verbose'' # [''mypackage=loud'']
   \<and> Level_parse (termLevel ''verbose'') = Inl ''unknown name''
   \<and> (\<exists>st'. parseFilter Level_parse emptyStore LevelInfo
                ''debug,mypackage=error,verbose,mypackage=loud'' = Inr (LevelDebug, 0, st')
          \<and> mapLookup st' 0 ''mypackage'' = (LevelError, True))"
  using
    parseFilter_undecodable_level
      [of "''error,testpackage=bogus''" "[''error'']" "''testpackage=bogus''" "[]"
          Level_parse "''unknown name''" emptyStore LevelInfo]
    parseFilter_undecodable_level
      [of "''debug,mypackage=error,verbose,mypackage=loud''"
          "[''debug'', ''mypackage=error'', ''verbose'']" "''mypackage=loud''" "[]"
          Level_parse "''unknown name''" emptyStore LevelInfo]
    parseFilter_undecodable_level
      [of "''debug,mypackage=error,verbose,mypackage=loud''"
          "[''debug'', ''mypackage=error'']" "''verbose''" "[''mypackage=loud'']"
          Level_parse "''unknown name''" emptyStore LevelInfo]
  by (simp add: filter_eval)

subsection \<open>A pair with an empty level\<close>

text \<open>
  Claim C7 says that a term \<^verbatim>\<open>module=\<close>, for a module that no earlier term assigned,
  records an override whose value is the zero value of the level type, and that this is the
  lowest level. The zero value of \<^verbatim>\<open>slog.Level\<close> is \<open>LevelInfo\<close>, and \<open>LevelDebug\<close> is
  below it: with \<^verbatim>\<open>mypackage=\<close> the override of \<^verbatim>\<open>mypackage\<close> is \<open>LevelInfo\<close>, above the
  level \<^verbatim>\<open>debug\<close> decodes to.
\<close>

theorem parseFilter_empty_level_counterexample:
  "parseFilter Level_parse emptyStore LevelDebug ''mypackage=''
     = Inr (LevelDebug, 0,
            \<lparr>handlers = [], levelMaps = [Mapping.update ''mypackage'' LevelInfo Mapping.empty]\<rparr>)
   \<and> Level_parse ''debug'' = Inr LevelDebug
   \<and> LevelDebug < LevelInfo"
  by (simp add: filter_eval)

text \<open>
  Claim C7, amended. For every filter string with a term \<^verbatim>\<open>module=\<close> (a pair whose level
  token is empty, which does not decode) where no earlier term is a pair of that module:
  the module has no entry before the term, and the iteration on the term records an entry
  whose value is the zero value of the level type, \<open>LevelInfo\<close>; it is the override of the
  module in the result when no later term is a pair of that module. \<open>LevelInfo\<close> is not
  the lowest level: \<open>LevelDebug\<close> is below it.
\<close>

theorem parseFilter_empty_level_records_zero:
  "Split f CHR '','' = pre @ t # post \<Longrightarrow> \<not> bareTerm t \<Longrightarrow> termLevel t = [] \<Longrightarrow>
   \<forall>u \<in> set pre. bareTerm u \<or> termModule u \<noteq> termModule t \<Longrightarrow> dec [] = Inl e \<Longrightarrow>
   \<exists>d1 st1 st2 d3 st3.
     parseFilterLoop dec (length (levelMaps st)) pre d (snd (makeMap st)) = Inr (d1, st1)
     \<and> mapLookup st1 (length (levelMaps st)) (termModule t) = (0, False)
     \<and> parseFilterLoop dec (length (levelMaps st)) [t] d1 st1 = Inr (d1, st2)
     \<and> mapLookup st2 (length (levelMaps st)) (termModule t) = (LevelInfo, True)
     \<and> parseFilterLoop dec (length (levelMaps st)) post d1 st2 = Inr (d3, st3)
     \<and> parseFilter dec st d f = Inr (d3, length (levelMaps st), st3)
     \<and> ((\<forall>u \<in> set post. bareTerm u \<or> termModule u \<noteq> termModule t) \<longrightarrow>
           mapLookup st3 (length (levelMaps st)) (termModule t) = (LevelInfo, True))
     \<and> LevelDebug < LevelInfo"
proof -
  assume sp: "Split f CHR '','' = pre @ t # post" and nb: "\<not> bareTerm t"
    and lv: "termLevel t = []"
    and fresh: "\<forall>u \<in> set pre. bareTerm u \<or> termModule u \<noteq> termModule t"
    and bad: "dec [] = Inl e"
  let ?m = "length (levelMaps st)"
  from parseFilter_run [OF sp, of dec st d] obtain d1 st1 d2 st2 d3 st3 where
    r: "parseFilterLoop dec ?m pre d (snd (makeMap st)) = Inr (d1, st1)"
       "parseFilterLoop dec ?m [t] d1 st1 = Inr (d2, st2)"
       "parseFilterLoop dec ?m post d2 st2 = Inr (d3, st3)"
       "parseFilter dec st d f = Inr (d3, ?m, st3)"
    and a1: "mapAt st1 ?m = snd (foldl (termStep dec) (d, Mapping.empty) pre)"
    and a2: "(d2, mapAt st2 ?m) = termStep dec (d1, mapAt st1 ?m) t"
    and a3: "mapAt st3 ?m = snd (foldl (termStep dec) (d2, mapAt st2 ?m) post)"
    by blast
  have l1: "Mapping.lookup (mapAt st1 ?m) (termModule t) = None"
    using foldl_termStep_other [OF fresh, of dec d Mapping.empty] a1 by simp
  from a2 nb lv bad have d2: "d2 = d1"
    and M2: "mapAt st2 ?m = Mapping.update (termModule t) 0 (mapAt st1 ?m)"
    using l1 by (simp_all add: termStep_conv Mapping.lookup_default_def)
  have l3: "(\<forall>u \<in> set post. bareTerm u \<or> termModule u \<noteq> termModule t) \<longrightarrow>
          mapLookup st3 ?m (termModule t) = (LevelInfo, True)"
  proof
    assume later: "\<forall>u \<in> set post. bareTerm u \<or> termModule u \<noteq> termModule t"
    show "mapLookup st3 ?m (termModule t) = (LevelInfo, True)"
      using foldl_termStep_other [OF later, of dec d2 "mapAt st2 ?m"] a3 M2
      by (simp add: mapLookup_def LevelInfo_def)
  qed
  have "mapLookup st1 ?m (termModule t) = (0, False)"
    using l1 by (simp add: mapLookup_def)
  moreover have "mapLookup st2 ?m (termModule t) = (LevelInfo, True)"
    by (simp add: mapLookup_def M2 LevelInfo_def)
  moreover have "LevelDebug < LevelInfo" by (simp add: LevelDebug_def LevelInfo_def)
  ultimately show ?thesis using r d2 l3 by blast
qed

theorem parseFilter_empty_level_records_zero_witness:
  "Split ''debug,mypackage='' CHR '','' = [''debug''] @ ''mypackage='' # []
   \<and> \<not> bareTerm ''mypackage='' \<and> termLevel ''mypackage='' = []
   \<and> termModule ''mypackage='' = ''mypackage''
   \<and> list_all (\<lambda>u. bareTerm u \<or> termModule u \<noteq> termModule ''mypackage='') [''debug'']
   \<and> Level_parse [] = Inl ''unknown name''
   \<and> (\<exists>st'. parseFilter Level_parse emptyStore LevelInfo ''debug,mypackage=''
               = Inr (LevelDebug, 0, st')
          \<and> mapLookup st' 0 ''mypackage'' = (LevelInfo, True))"
  using
    parseFilter_empty_level_records_zero
      [of "''debug,mypackage=''" "[''debug'']" "''mypackage=''" "[]" Level_parse
          "''unknown name''" emptyStore LevelInfo]
  by (simp add: filter_eval)

section \<open>NewHandler\<close>

subsection \<open>The choice of the filter text\<close>

text \<open>
  Claim C8 in its own words: the filter text is the value of the environment variable when
  the variable is set, and the default filter text otherwise.
\<close>

definition specFilter :: "(string \<Rightarrow> string option) \<Rightarrow> config \<Rightarrow> string" where
  "specFilter env cfg = (case env (envVarName cfg) of Some v \<Rightarrow> v | None \<Rightarrow> defaultFilter cfg)"

text \<open>
  With \<^verbatim>\<open>GO_LOG\<close> set to the empty string and the default filter \<^verbatim>\<open>debug\<close>, the claimed
  filter text is empty, which would resolve to the default level \<open>LevelInfo\<close>; the code
  parses \<^verbatim>\<open>debug\<close> and the handler has the default level \<open>LevelDebug\<close>.
\<close>

theorem NewHandler_filter_fallback_counterexample:
  "specFilter (Setenv ''GO_LOG'' [] emptyEnv) (applyOpts [WithDefaultFilter ''debug'']) = []
   \<and> chooseFilter (Setenv ''GO_LOG'' [] emptyEnv) (applyOpts [WithDefaultFilter ''debug'']) = ''debug''
   \<and> NewHandler Level_parse (Setenv ''GO_LOG'' [] emptyEnv) emptyStore () [WithDefaultFilter ''debug'']
       = Inr (0, \<lparr>handlers = [\<lparr>inner = (), defaultLevel = LevelDebug, perPackageLevel = 0\<rparr>],
                  levelMaps = [Mapping.empty]\<rparr>)
   \<and> parseFilter Level_parse emptyStore (config.defaultLevel (applyOpts [WithDefaultFilter ''debug''])) []
       = Inr (LevelInfo, 0, \<lparr>handlers = [], levelMaps = [Mapping.empty]\<rparr>)
   \<and> LevelDebug \<noteq> LevelInfo"
  by (simp add: specFilter_def chooseFilter_def env_eval NewHandler_def applyOpts_def
      WithDefaultFilter_def filter_eval)

lemma parseFilter_empty_text:
  "dec [] = Inl e \<Longrightarrow>
   parseFilter dec st d [] =
     Inr (d, length (levelMaps st), st\<lparr>levelMaps := levelMaps st @ [Mapping.empty]\<rparr>)"
  by (simp add: parseFilter_foldl Split_Nil termStep_conv bareTerm_def)

text \<open>
  Claim C8, amended. For every construction, the filter text handed to \<open>parseFilter\<close> is
  the value of the environment variable when the variable is set to a non-empty string,
  and the default filter text of the caller otherwise; when that text is empty too, the
  handler has the default level of the configuration and no overrides. The configuration
  starts from \<open>LevelInfo\<close>, \<^verbatim>\<open>GO_LOG\<close> and no default filter, and the options are applied
  in order, so that a later option overrides an earlier one.
\<close>

theorem NewHandler_filter_fallback:
  "dec [] = Inl e \<Longrightarrow>
   chooseFilter env (applyOpts opts) =
     (case env (envVarName (applyOpts opts)) of
        None \<Rightarrow> defaultFilter (applyOpts opts)
      | Some v \<Rightarrow> if v = [] then defaultFilter (applyOpts opts) else v)
   \<and> NewHandler dec env st inner' opts =
       (case parseFilter dec st (config.defaultLevel (applyOpts opts))
               (chooseFilter env (applyOpts opts)) of
          Inl p \<Rightarrow> Inl p
        | Inr (d, m, st') \<Rightarrow>
            Inr (newHandler st' \<lparr>inner = inner', defaultLevel = d, perPackageLevel = m\<rparr>))
   \<and> (chooseFilter env (applyOpts opts) = [] \<longrightarrow>
        NewHandler dec env st inner' opts =
          Inr (length (handlers st),
               \<lparr>handlers = handlers st @
                   [\<lparr>inner = inner', defaultLevel = config.defaultLevel (applyOpts opts),
                     perPackageLevel = length (levelMaps st)\<rparr>],
                levelMaps = levelMaps st @ [Mapping.empty]\<rparr>))
   \<and> applyOpts [] = \<lparr>config.defaultLevel = LevelInfo, envVarName = ''GO_LOG'', defaultFilter = []\<rparr>
   \<and> applyOpts (opts @ [opt]) = opt (applyOpts opts)
   \<and> config.defaultLevel (applyOpts (opts @ [WithDefaultLevel level])) = level
   \<and> envVarName (applyOpts (opts @ [WithEnvVarName name])) = name
   \<and> defaultFilter (applyOpts (opts @ [WithDefaultFilter text])) = text"
  by (simp add: chooseFilter_def env_eval NewHandler_def applyOpts_def parseFilter_empty_text
      newHandler_def WithDefaultLevel_def WithEnvVarName_def WithDefaultFilter_def Let_def
      split: option.split)

theorem NewHandler_filter_fallback_witness:
  "Level_parse [] = Inl ''unknown name''
   \<and> chooseFilter (Setenv ''LOG'' ''warn'' emptyEnv) (applyOpts [WithDefaultFilter ''debug'', WithEnvVarName ''LOG'']) = ''warn''
   \<and> chooseFilter emptyEnv (applyOpts [WithDefaultFilter ''debug'', WithEnvVarName ''LOG'']) = ''debug''
   \<and> chooseFilter emptyEnv (applyOpts [WithDefaultLevel LevelDebug, WithDefaultLevel LevelError]) = []
   \<and> NewHandler Level_parse emptyEnv emptyStore () [WithDefaultLevel LevelDebug, WithDefaultLevel LevelError]
       = Inr (0, \<lparr>handlers = [\<lparr>inner = (), defaultLevel = LevelError, perPackageLevel = 0\<rparr>],
                  levelMaps = [Mapping.empty]\<rparr>)"
  using
    NewHandler_filter_fallback
      [of Level_parse "''unknown name''" "Setenv ''LOG'' ''warn'' emptyEnv"
          "[WithDefaultFilter ''debug'', WithEnvVarName ''LOG'']" emptyStore "()"]
    NewHandler_filter_fallback
      [of Level_parse "''unknown name''" emptyEnv
          "[WithDefaultFilter ''debug'', WithEnvVarName ''LOG'']" emptyStore "()"]
    NewHandler_filter_fallback
      [of Level_parse "''unknown name''" emptyEnv
          "[WithDefaultLevel LevelDebug, WithDefaultLevel LevelError]" emptyStore "()"]
  by (simp add: chooseFilter_def env_eval NewHandler_def applyOpts_def WithDefaultLevel_def
      WithEnvVarName_def WithDefaultFilter_def filter_eval)

subsection \<open>An empty value of the environment variable\<close>

text \<open>
  Claim C9. For every construction, an environment variable whose value is the empty
  string is not distinguished from a variable that is not set: in both cases the chosen
  filter text is the default filter text of the caller, \<open>NewHandler\<close> builds its handler
  from \<open>parseFilter\<close> on that text, and the two results are equal. Only a non-empty value
  replaces the default filter text: \<open>NewHandler\<close> then builds its handler from
  \<open>parseFilter\<close> on the value.
\<close>

theorem NewHandler_empty_env_is_unset:
  "chooseFilter (Setenv (envVarName (applyOpts opts)) [] env) (applyOpts opts)
     = defaultFilter (applyOpts opts)
   \<and> chooseFilter (Unsetenv (envVarName (applyOpts opts)) env) (applyOpts opts)
     = defaultFilter (applyOpts opts)
   \<and> NewHandler dec (Setenv (envVarName (applyOpts opts)) [] env) st inner' opts
     = NewHandler dec (Unsetenv (envVarName (applyOpts opts)) env) st inner' opts
   \<and> NewHandler dec (Setenv (envVarName (applyOpts opts)) [] env) st inner' opts
     = (case parseFilter dec st (config.defaultLevel (applyOpts opts))
               (defaultFilter (applyOpts opts)) of
          Inl p \<Rightarrow> Inl p
        | Inr (d, m, st') \<Rightarrow>
            Inr (newHandler st' \<lparr>inner = inner', defaultLevel = d, perPackageLevel = m\<rparr>))
   \<and> NewHandler dec (Unsetenv (envVarName (applyOpts opts)) env) st inner' opts
     = (case parseFilter dec st (config.defaultLevel (applyOpts opts))
               (defaultFilter (applyOpts opts)) of
          Inl p \<Rightarrow> Inl p
        | Inr (d, m, st') \<Rightarrow>
            Inr (newHandler st' \<lparr>inner = inner', defaultLevel = d, perPackageLevel = m\<rparr>))
   \<and> (v \<noteq> [] \<longrightarrow>
        chooseFilter (Setenv (envVarName (applyOpts opts)) v env) (applyOpts opts) = v
        \<and> NewHandler dec (Setenv (envVarName (applyOpts opts)) v env) st inner' opts
          = (case parseFilter dec st (config.defaultLevel (applyOpts opts)) v of
               Inl p \<Rightarrow> Inl p
             | Inr (d, m, st') \<Rightarrow>
                 Inr (newHandler st' \<lparr>inner = inner', defaultLevel = d, perPackageLevel = m\<rparr>)))"
  by (simp add: chooseFilter_def env_eval NewHandler_def Let_def)

theorem NewHandler_empty_env_is_unset_witness:
  "chooseFilter (Setenv ''GO_LOG'' [] emptyEnv) (applyOpts [WithDefaultFilter ''debug'']) = ''debug''
   \<and> chooseFilter (Unsetenv ''GO_LOG'' emptyEnv) (applyOpts [WithDefaultFilter ''debug'']) = ''debug''
   \<and> parseFilter Level_parse emptyStore LevelInfo ''debug''
       = Inr (LevelDebug, 0, \<lparr>handlers = [], levelMaps = [Mapping.empty]\<rparr>)
   \<and> NewHandler Level_parse (Setenv ''GO_LOG'' [] emptyEnv) emptyStore () [WithDefaultFilter ''debug'']
       = Inr (0, \<lparr>handlers = [\<lparr>inner = (), defaultLevel = LevelDebug, perPackageLevel = 0\<rparr>],
                  levelMaps = [Mapping.empty]\<rparr>)
   \<and> NewHandler Level_parse (Unsetenv ''GO_LOG'' emptyEnv) emptyStore () [WithDefaultFilter ''debug'']
       = Inr (0, \<lparr>handlers = [\<lparr>inner = (), defaultLevel = LevelDebug, perPackageLevel = 0\<rparr>],
                  levelMaps = [Mapping.empty]\<rparr>)
   \<and> ''warn'' \<noteq> []
   \<and> chooseFilter (Setenv ''GO_LOG'' ''warn'' emptyEnv) (applyOpts [WithDefaultFilter ''debug'']) = ''warn''
   \<and> NewHandler Level_parse (Setenv ''GO_LOG'' ''warn'' emptyEnv) emptyStore () [WithDefaultFilter ''debug'']
       = Inr (0, \<lparr>handlers = [\<lparr>inner = (), defaultLevel = LevelWarn, perPackageLevel = 0\<rparr>],
                  levelMaps = [Mapping.empty]\<rparr>)"
  using
    NewHandler_empty_env_is_unset
      [of "[WithDefaultFilter ''debug'']" emptyEnv Level_parse emptyStore "()" "''warn''"]
  by (simp add: chooseFilter_def env_eval NewHandler_def applyOpts_def
      WithDefaultFilter_def filter_eval)

section \<open>The tests of the repository\<close>

text \<open>
  The model run on the tests of the package. A method of \<^verbatim>\<open>slog.Logger\<close> first asks
  \<open>Enabled\<close>; when the answer is true it builds the record and calls \<open>Handle\<close>, whose
  error it drops. \<open>logAll\<close> does this for a list of records.
\<close>

fun logAll ::
  "('h, unit, 'a, 'w) sink \<Rightarrow> (nat \<Rightarrow> string) \<Rightarrow> 'h store \<Rightarrow> nat \<Rightarrow> Record list \<Rightarrow> 'w \<Rightarrow> panic + 'w" where
  "logAll ops frames st h [] w = Inr w"
| "logAll ops frames st h (record # records) w =
     (case Enabled st h () (Level record) of
        Inl p \<Rightarrow> Inl p
      | Inr enabled \<Rightarrow>
          if \<not> enabled then logAll ops frames st h records w
          else (case Handle ops frames st h () record w of
                  Inl p \<Rightarrow> Inl p
                | Inr (err, w') \<Rightarrow> logAll ops frames st h records w'))"

text \<open>
  The eight calls of \<^verbatim>\<open>TestPackageFilter\<close>: four from the closure of the test and four
  from \<^verbatim>\<open>testpackage.LogSomething\<close>. \<^verbatim>\<open>TestDefaultLevel\<close> makes the first four.
  \<open>runTest\<close> builds the handler with \<^verbatim>\<open>GO_LOG\<close> set, as the tests do, and returns the
  messages that reach \<open>testHandler\<close>.
\<close>

definition testCalls :: "Record list" where
  "testCalls =
     [\<lparr>Time = 0, Message = ''debug'', Level = LevelDebug, PC = 1\<rparr>,
      \<lparr>Time = 0, Message = ''info'', Level = LevelInfo, PC = 1\<rparr>,
      \<lparr>Time = 0, Message = ''warn'', Level = LevelWarn, PC = 1\<rparr>,
      \<lparr>Time = 0, Message = ''error'', Level = LevelError, PC = 1\<rparr>,
      \<lparr>Time = 0, Message = ''testpackage debug'', Level = LevelDebug, PC = 2\<rparr>,
      \<lparr>Time = 0, Message = ''testpackage info'', Level = LevelInfo, PC = 2\<rparr>,
      \<lparr>Time = 0, Message = ''testpackage warn'', Level = LevelWarn, PC = 2\<rparr>,
      \<lparr>Time = 0, Message = ''testpackage error'', Level = LevelError, PC = 2\<rparr>]"

definition runTest :: "string \<Rightarrow> Record list \<Rightarrow> panic + string list" where
  "runTest goLog records =
     (case NewHandler Level_parse (Setenv ''GO_LOG'' goLog emptyEnv) emptyStore () [] of
        Inl p \<Rightarrow> Inl p
      | Inr (h, st) \<Rightarrow> logAll testHandler testFrames st h records [])"

lemmas test_eval =
  runTest_def testCalls_def NewHandler_def applyOpts_def chooseFilter_def env_eval
  testHandler_def testFrames_def Handle_def Enabled_def getLevelForRecord_def filter_eval

text \<open>The expected messages of every case of the two tests.\<close>

lemma TestDefaultLevel:
  "runTest ''debug'' (take 4 testCalls) = Inr [''debug'', ''info'', ''warn'', ''error'']"
  "runTest ''info'' (take 4 testCalls) = Inr [''info'', ''warn'', ''error'']"
  "runTest ''warn'' (take 4 testCalls) = Inr [''warn'', ''error'']"
  "runTest ''error'' (take 4 testCalls) = Inr [''error'']"
  by (simp_all add: test_eval)

lemma TestPackageFilter:
  "runTest ''testpackage=error'' testCalls = Inr [''info'', ''warn'', ''error'', ''testpackage error'']"
  "runTest ''debug,testpackage=error'' testCalls
     = Inr [''debug'', ''info'', ''warn'', ''error'', ''testpackage error'']"
  "runTest ''slog-env_test=debug,testpackage=error'' testCalls
     = Inr [''debug'', ''info'', ''warn'', ''error'', ''testpackage error'']"
  "runTest ''error,testpackage=debug'' testCalls
     = Inr [''error'', ''testpackage debug'', ''testpackage info'', ''testpackage warn'',
            ''testpackage error'']"
  by (simp_all add: test_eval)

end
